theory Spec2Isabelle
  imports Main "HOL-Library.AList"
begin

section \<open>Python values used by \<open>perceiver/data/text/common.py\<close>\<close>

text \<open>
  Exceptions are values. \<open>ValueError\<close> carries its message; \<open>LibraryError\<close> stands for any
  failure raised inside an external collaborator (tokenizer, dataset engine).
\<close>

datatype py_error =
    ValueError string
  | IndexError
  | KeyError string
  | ZeroDivisionError
  | AssertionError
  | NotImplementedError
  | RuntimeError
  | TypeError
  | LibraryError string

text \<open>
  \<open>range(start, stop, step)\<close> for a non-zero step, as the loop it stands for. The only
  call site reaches it after a division by the same step has succeeded.
\<close>

function py_range :: "int \<Rightarrow> int \<Rightarrow> int \<Rightarrow> int list" where
  "py_range i stop step =
     (if 0 < step \<and> i < stop then i # py_range (i + step) stop step
      else if step < 0 \<and> stop < i then i # py_range (i + step) stop step
      else [])"
  by pat_completeness auto
termination
  by (relation "measure (\<lambda>(i, stop, step). nat (if 0 < step then stop - i else i - stop))") auto

declare py_range.simps [simp del]

text \<open>
  The slice \<open>t[i:j]\<close>: a negative bound counts from the end, and both bounds are clamped
  to the list.
\<close>

definition slice_bound :: "nat \<Rightarrow> int \<Rightarrow> nat" where
  "slice_bound n k = (if k < 0 then nat (max 0 (k + int n)) else min (nat k) n)"

definition py_slice :: "'a list \<Rightarrow> int \<Rightarrow> int \<Rightarrow> 'a list" where
  "py_slice t i j =
     (let lo = slice_bound (length t) i; hi = slice_bound (length t) j
      in take (hi - lo) (drop lo t))"

text \<open>The open slices \<open>t[i:]\<close> and \<open>t[:j]\<close>.\<close>

definition slice_from :: "'a list \<Rightarrow> int \<Rightarrow> 'a list" where
  "slice_from t i = drop (slice_bound (length t) i) t"

definition slice_upto :: "'a list \<Rightarrow> int \<Rightarrow> 'a list" where
  "slice_upto t j = take (slice_bound (length t) j) t"

text \<open>Indexing \<open>xs[i]\<close> of a sequence: a negative index counts from the end.\<close>

definition py_index :: "'a list \<Rightarrow> int \<Rightarrow> py_error + 'a" where
  "py_index xs i =
     (if i < - int (length xs) \<or> int (length xs) \<le> i then Inl IndexError
      else if i < 0 then Inr (xs ! nat (i + int (length xs)))
      else Inr (xs ! nat i))"

section \<open>The chunking stage\<close>

text \<open>
  \<open>{k: list(chain(*args[i])) for i, k in enumerate(include_keys)}\<close>: a dictionary built
  key by key; a repeated key keeps its first position and takes the later value.
  \<open>args[i]\<close> raises \<open>IndexError\<close> when fewer columns than keys were passed.
\<close>

fun chain_columns ::
  "string list \<Rightarrow> 'a list list list \<Rightarrow> (string \<times> 'a list) list
     \<Rightarrow> py_error + (string \<times> 'a list) list" where
  "chain_columns [] args acc = Inr acc"
| "chain_columns (k # ks) [] acc = Inl IndexError"
| "chain_columns (k # ks) (a # as) acc = chain_columns ks as (AList.update k (concat a) acc)"

text \<open>
  The inner function \<open>chunk\<close> of \<open>_chunk_dataset\<close>. \<open>chained_len\<close> is rounded down to a
  multiple of \<open>chunk_size\<close> only when it is at least \<open>chunk_size\<close>.
\<close>

definition chunk ::
  "int \<Rightarrow> string list \<Rightarrow> 'a list list list \<Rightarrow> py_error + (string \<times> 'a list list) list" where
  "chunk chunk_size include_keys args =
     (case chain_columns include_keys args [] of
        Inl e \<Rightarrow> Inl e
      | Inr chained \<Rightarrow>
          (case include_keys of
             [] \<Rightarrow> Inl IndexError
           | k0 # _ \<Rightarrow>
               (case map_of chained k0 of
                  None \<Rightarrow> Inl (KeyError k0)
                | Some t0 \<Rightarrow>
                    let chained_len = int (length t0) in
                    if chained_len \<ge> chunk_size \<and> chunk_size = 0 then Inl ZeroDivisionError
                    else
                      let chained_len =
                            (if chained_len \<ge> chunk_size
                             then (chained_len div chunk_size) * chunk_size
                             else chained_len)
                      in Inr (map (\<lambda>(k, t).
                                (k, map (\<lambda>i. py_slice t i (i + chunk_size))
                                        (py_range 0 chained_len chunk_size)))
                              chained))))"

section \<open>Configuration and construction\<close>

datatype Task = mlm | clm | clf

definition task_name :: "Task \<Rightarrow> string" where
  "task_name t = (case t of mlm \<Rightarrow> ''mlm'' | clm \<Rightarrow> ''clm'' | clf \<Rightarrow> ''clf'')"

text \<open>
  The hyperparameters saved by \<open>save_hyperparameters()\<close>. \<open>'v\<close> is the type of Python
  numbers that are only stored and formatted (\<open>mask_prob\<close> is a float). The last two
  fields are the optional \<open>source_train_size\<close> and \<open>source_valid_size\<close> that subclasses
  add: \<open>hparams.get\<close> gives \<open>None\<close> when they are absent or unset.
\<close>

record 'v hparams =
  dataset_dir :: string
  tokenizer :: string
  max_seq_len :: int
  task :: Task
  mask_prob :: 'v
  mask_words :: bool
  static_masking :: bool
  add_special_tokens :: bool
  add_eos_token :: bool
  padding_side :: "string option"
  random_train_shift :: bool
  random_valid_shift :: bool
  random_train_truncation :: bool
  random_valid_truncation :: bool
  random_min_seq_len :: int
  preproc_batch_size :: int
  preproc_workers :: "int option"
  batch_size :: int
  valid_batch_size :: "int option"
  num_workers :: int
  pin_memory :: bool
  source_train_size :: "'v option"
  source_valid_size :: "'v option"

subsection \<open>The tokenizer, an external collaborator\<close>

record tok_kwargs =
  kw_padding :: bool
  kw_truncation :: bool
  kw_max_length :: "int option"
  kw_add_special_tokens :: bool
  kw_return_token_type_ids :: bool
  kw_return_attention_mask :: bool
  kw_return_tensors :: "string option"

text \<open>
  What a tokenizer call returns: \<open>input_ids\<close>, the attention mask when it was asked for,
  and the method \<open>word_ids(i)\<close>.
\<close>

record encoding =
  enc_input_ids :: "int list list"
  enc_attention_mask :: "int list list option"
  enc_word_ids :: "nat \<Rightarrow> py_error + int option list"

record tokenizer_obj =
  tok_padding_side :: string
  tok_pad_token :: "string option"
  tok_eos_token :: "string option"
  tok_mask_token :: "string option"
  tok_vocab_size :: int
  tok_call :: "tok_kwargs \<Rightarrow> string list \<Rightarrow> py_error + encoding"

text \<open>
  The collators are classes of \<open>perceiver.data.text.collator\<close>. A collator object is
  represented by its class and the arguments it was built from.
\<close>

datatype 'v collator =
    WordMaskingCollator tokenizer_obj 'v
  | TokenMaskingCollator tokenizer_obj 'v
  | DefaultCollator tokenizer_obj int

text \<open>
  The constructors of the collator classes and of \<open>PerceiverTokenizerUtil\<close> live in
  other modules of the package. Each of them may raise, so they are parameters that
  return an error or the object.
\<close>

record 'v collator_classes =
  new_WordMaskingCollator :: "tokenizer_obj \<Rightarrow> 'v \<Rightarrow> py_error + 'v collator"
  new_TokenMaskingCollator :: "tokenizer_obj \<Rightarrow> 'v \<Rightarrow> py_error + 'v collator"
  new_DefaultCollator :: "tokenizer_obj \<Rightarrow> int \<Rightarrow> py_error + 'v collator"
  new_PerceiverTokenizerUtil :: "tokenizer_obj \<Rightarrow> py_error + unit"

record ('v, 'ds) TextDataModule =
  hparams :: "'v hparams"
  tokenizer_of :: tokenizer_obj
  perceiver_tokenizer_configured :: bool
  collator_of :: "'v collator"
  ds_train :: "'ds option"
  ds_valid :: "'ds option"

text \<open>
  \<open>TextDataModule.__init__\<close>. \<open>from_pretrained\<close> is \<open>AutoTokenizer.from_pretrained\<close>,
  which may fail, as may the constructors it calls afterwards. The configuration
  check comes first.
\<close>

definition init ::
  "(string \<Rightarrow> py_error + tokenizer_obj) \<Rightarrow> 'v collator_classes \<Rightarrow> 'v hparams
     \<Rightarrow> py_error + ('v, 'ds) TextDataModule" where
  "init from_pretrained classes hp =
     (if static_masking hp \<and> \<not> mask_words hp
      then Inl (ValueError ''static_masking=true is only supported for mask_words=true'')
      else
        (case from_pretrained (tokenizer hp) of
           Inl e \<Rightarrow> Inl e
         | Inr loaded \<Rightarrow>
             let tok = (case padding_side hp of
                          None \<Rightarrow> loaded
                        | Some side \<Rightarrow> loaded\<lparr>tok_padding_side := side\<rparr>);
                 configured = (tokenizer hp \<in>
                    set [''krasserm/perceiver-io-mlm'', ''deepmind/language-perceiver''])
             in case (if configured then new_PerceiverTokenizerUtil classes tok else Inr ()) of
                  Inl e \<Rightarrow> Inl e
                | Inr _ \<Rightarrow>
                    (case (if task hp = mlm \<and> \<not> static_masking hp
                           then (if mask_words hp
                                 then new_WordMaskingCollator classes tok (mask_prob hp)
                                 else new_TokenMaskingCollator classes tok (mask_prob hp))
                           else new_DefaultCollator classes tok (max_seq_len hp)) of
                       Inl e \<Rightarrow> Inl e
                     | Inr coll \<Rightarrow>
                         Inr \<lparr>hparams = hp, tokenizer_of = tok,
                              perceiver_tokenizer_configured = configured,
                              collator_of = coll, ds_train = None, ds_valid = None\<rparr>)))"

definition random_shift :: "'v hparams \<Rightarrow> bool" where
  "random_shift hp = (random_train_shift hp \<or> random_valid_shift hp)"

definition preproc_workers_of :: "'v hparams \<Rightarrow> int" where
  "preproc_workers_of hp =
     (case preproc_workers hp of Some n \<Rightarrow> n | None \<Rightarrow> max 1 (num_workers hp))"

subsection \<open>The cache key\<close>

text \<open>Decimal rendering of an integer and of a boolean, as an f-string does it.\<close>

fun str_nat :: "nat \<Rightarrow> string" where
  "str_nat n =
     (if n < 10 then [''0123456789'' ! n]
      else str_nat (n div 10) @ [''0123456789'' ! (n mod 10)])"

declare str_nat.simps [simp del]

definition str_int :: "int \<Rightarrow> string" where
  "str_int i = (if i < 0 then ''-'' @ str_nat (nat (- i)) else str_nat (nat i))"

definition str_bool :: "bool \<Rightarrow> string" where
  "str_bool b = (if b then ''True'' else ''False'')"

text \<open>
  \<open>preproc_dir_hash_input\<close>. \<open>fmt\<close> is the f-string rendering of a value of type \<open>'v\<close>.
\<close>

definition preproc_dir_hash_input :: "('v \<Rightarrow> string) \<Rightarrow> 'v hparams \<Rightarrow> string" where
  "preproc_dir_hash_input fmt hp =
     (let hash_input = tokenizer hp @ ''-'' @ str_int (max_seq_len hp) @ ''-'' @
                       task_name (task hp) @ ''-'' @ str_bool (random_shift hp);
          hash_input = (if task hp = mlm \<and> static_masking hp
                        then hash_input @ ''-'' @ str_bool (mask_words hp) @ ''-'' @
                             fmt (mask_prob hp)
                        else hash_input);
          hash_input = (if add_special_tokens hp then hash_input @ ''-st'' else hash_input);
          hash_input = (if add_eos_token hp then hash_input @ ''-eos'' else hash_input);
          hash_input = (case source_train_size hp of
                          Some n \<Rightarrow> hash_input @ ''-ts-'' @ fmt n
                        | None \<Rightarrow> hash_input);
          hash_input = (case source_valid_size hp of
                          Some n \<Rightarrow> hash_input @ ''-vs-'' @ fmt n
                        | None \<Rightarrow> hash_input)
      in hash_input)"

text \<open>\<open>os.path.join\<close> of two components on a POSIX system.\<close>

definition path_join :: "string \<Rightarrow> string \<Rightarrow> string" where
  "path_join a b =
     (if b \<noteq> [] \<and> hd b = CHR ''/'' then b
      else if a = [] \<or> last a = CHR ''/'' then a @ b
      else a @ ''/'' @ b)"

text \<open>
  \<open>preproc_dir\<close>. \<open>md5_hex\<close> is \<open>hashlib\<close>'s MD5 followed by \<open>hexdigest()\<close>, taken as a
  parameter.
\<close>

definition preproc_dir :: "(string \<Rightarrow> string) \<Rightarrow> ('v \<Rightarrow> string) \<Rightarrow> 'v hparams \<Rightarrow> string" where
  "preproc_dir md5_hex fmt hp =
     path_join (path_join (dataset_dir hp) ''preproc'') (md5_hex (preproc_dir_hash_input fmt hp))"

section \<open>The text preprocessor\<close>

record TextPreprocessor =
  pre_tokenizer :: tokenizer_obj
  pre_max_seq_len :: int
  pre_add_special_tokens :: bool

text \<open>
  \<open>preprocess_batch\<close>. A tensor is the list of its rows; \<open>~mask.type(torch.bool)\<close> is
  true exactly where the mask is zero. Reading \<open>attention_mask\<close> from a result that
  has none raises \<open>KeyError\<close>.
\<close>

definition preprocess_batch ::
  "TextPreprocessor \<Rightarrow> string list \<Rightarrow> py_error + (int list list \<times> bool list list)" where
  "preprocess_batch self text_batch =
     (case tok_call (pre_tokenizer self)
             \<lparr>kw_padding = (tok_pad_token (pre_tokenizer self) \<noteq> None),
              kw_truncation = True,
              kw_max_length = Some (pre_max_seq_len self),
              kw_add_special_tokens = pre_add_special_tokens self,
              kw_return_token_type_ids = False,
              kw_return_attention_mask = True,
              kw_return_tensors = Some ''pt''\<rparr>
             text_batch of
        Inl e \<Rightarrow> Inl e
      | Inr result \<Rightarrow>
          (case enc_attention_mask result of
             None \<Rightarrow> Inl (KeyError ''attention_mask'')
           | Some am \<Rightarrow> Inr (enc_input_ids result, map (map (\<lambda>a. \<not> (a \<noteq> 0))) am)))"

text \<open>Row \<open>0\<close> of a tensor; a tensor without rows raises \<open>IndexError\<close>.\<close>

definition row0 :: "'a list \<Rightarrow> py_error + 'a" where
  "row0 xs = (case xs of [] \<Rightarrow> Inl IndexError | x # _ \<Rightarrow> Inr x)"

definition preprocess :: "TextPreprocessor \<Rightarrow> string \<Rightarrow> py_error + (int list \<times> bool list)" where
  "preprocess self text =
     (case preprocess_batch self [text] of
        Inl e \<Rightarrow> Inl e
      | Inr (xs, pad_mask) \<Rightarrow>
          (case row0 xs of
             Inl e \<Rightarrow> Inl e
           | Inr x \<Rightarrow> (case row0 pad_mask of Inl e \<Rightarrow> Inl e | Inr m \<Rightarrow> Inr (x, m))))"

section \<open>Wrapper datasets\<close>

text \<open>
  A fetched example is a dictionary from field names to sequences. A dataset is seen
  through its \<open>__getitem__\<close>, which may fail and may advance a random generator \<open>'g\<close>.
\<close>

type_synonym 'a example = "(string \<times> 'a list) list"

type_synonym ('a, 'g) getitem = "int \<Rightarrow> 'g \<Rightarrow> (py_error + 'a example) \<times> 'g"

definition list_getitem :: "'a example list \<Rightarrow> ('a, 'g) getitem" where
  "list_getitem ds idx g = (py_index ds idx, g)"

text \<open>
  The loop of \<open>RandomShiftDataset.__getitem__\<close> over the keys of \<open>example_1\<close>.
  \<open>randint n\<close> is \<open>torch.randint(n, (1,)).item()\<close>: it is called when \<open>shift\<close> is still
  \<open>None\<close>, with the length of the current record.
\<close>

fun shift_fields ::
  "(nat \<Rightarrow> 'g \<Rightarrow> (py_error + nat) \<times> 'g) \<Rightarrow> 'a example \<Rightarrow> 'a example \<Rightarrow> string list
     \<Rightarrow> nat option \<Rightarrow> 'a example \<Rightarrow> 'g \<Rightarrow> (py_error + 'a example) \<times> 'g" where
  "shift_fields randint example_1 example_2 [] shift result g = (Inr result, g)"
| "shift_fields randint example_1 example_2 (key # keys) shift result g =
     (case map_of example_1 key of
        None \<Rightarrow> (Inl (KeyError key), g)
      | Some record_1 \<Rightarrow>
          (case map_of example_2 key of
             None \<Rightarrow> (Inl (KeyError key), g)
           | Some record_2 \<Rightarrow>
               (case (case shift of
                        None \<Rightarrow> randint (length record_1) g
                      | Some s \<Rightarrow> (Inr s, g)) of
                  (Inl e, g') \<Rightarrow> (Inl e, g')
                | (Inr s, g') \<Rightarrow>
                    shift_fields randint example_1 example_2 keys (Some s)
                      (AList.update key
                         (slice_from record_1 (int s) @ slice_upto record_2 (int s)) result)
                      g')))"

definition RandomShiftDataset_getitem ::
  "(nat \<Rightarrow> 'g \<Rightarrow> (py_error + nat) \<times> 'g) \<Rightarrow> ('a, 'g) getitem \<Rightarrow> ('a, 'g) getitem" where
  "RandomShiftDataset_getitem randint dataset idx g =
     (case dataset idx g of
        (Inl e, g1) \<Rightarrow> (Inl e, g1)
      | (Inr example_1, g1) \<Rightarrow>
          (case dataset (idx + 1) g1 of
             (Inl e, g2) \<Rightarrow> (Inl e, g2)
           | (Inr example_2, g2) \<Rightarrow>
               shift_fields randint example_1 example_2 (map fst example_1) None [] g2))"

text \<open>The value the loop of \<open>__getitem__\<close> stores under a key once the shift is known:
  \<open>record_1[shift:] + record_2[:shift]\<close>.\<close>

definition shifted :: "nat \<Rightarrow> 'a example \<Rightarrow> 'a example \<Rightarrow> string \<Rightarrow> 'a list" where
  "shifted s e1 e2 k = drop s (the (map_of e1 k)) @ take s (the (map_of e2 k))"

definition RandomShiftDataset_len :: "int \<Rightarrow> int" where
  "RandomShiftDataset_len dataset_len = dataset_len - 1"

definition CLMDataset_getitem :: "('a, 'g) getitem \<Rightarrow> ('a, 'g) getitem" where
  "CLMDataset_getitem dataset idx g =
     (case dataset idx g of
        (Inl e, g') \<Rightarrow> (Inl e, g')
      | (Inr example, g') \<Rightarrow>
          (case map_of example ''input_ids'' of
             None \<Rightarrow> (Inl (KeyError ''input_ids''), g')
           | Some record \<Rightarrow>
               (Inr [(''input_ids'', slice_upto record (- 1)),
                     (''label_ids'', slice_from record 1)], g')))"

definition CLMDataset_len :: "int \<Rightarrow> int" where
  "CLMDataset_len dataset_len = dataset_len"

section \<open>The preprocessing pipeline\<close>

subsection \<open>The dataset engine, an external collaborator\<close>

text \<open>
  A batch of columns maps a column name to one sequence per row; token ids and word
  ids are integers or \<open>None\<close>. \<open>Dataset.map\<close> is called with three shapes of function:
  on the batch dictionary (of which \<open>tokenize\<close> reads only the \<open>text\<close> column, absent
  when the dataset has none), on the input columns passed positionally, and on one
  example at a time.
\<close>

type_synonym columns = "(string \<times> int option list list) list"

datatype map_function =
    OnExamples "string list option \<Rightarrow> py_error + columns"
  | OnColumns "int option list list list \<Rightarrow> py_error + columns"
  | OnExample "int option example \<Rightarrow> py_error + int option example"

record map_kwargs =
  mk_batched :: bool
  mk_batch_size :: "int option"
  mk_num_proc :: int
  mk_input_columns :: "string list option"
  mk_remove_columns :: "string list option"
  mk_load_from_cache_file :: bool
  mk_desc :: string

text \<open>
  The collaborators of the pipeline: the dataset engine (\<open>column_names\<close> and \<open>map\<close> of a
  dataset \<open>'ds\<close>), and what this package keeps in other modules: the constructors of the
  collator classes, \<open>PerceiverTokenizerUtil.word_ids\<close> and
  \<open>WordMaskingCollator.mask_words_1\<close>.
\<close>

record ('v, 'ds) collaborators =
  ds_column_names :: "'ds \<Rightarrow> string list"
  ds_map :: "map_function \<Rightarrow> map_kwargs \<Rightarrow> 'ds \<Rightarrow> py_error + 'ds"
  collator_classes_of :: "'v collator_classes"
  perceiver_word_ids :: "int list \<Rightarrow> int option list"
  mask_words_1 :: "'v collator \<Rightarrow> int option example \<Rightarrow> py_error + int option example"

text \<open>
  The world the pipeline acts on: the dataset dictionaries saved on disk, by path, and
  the calls made so far to the data source and the dataset engine.
\<close>

datatype event =
    LoadSourceDataset
  | DatasetMap string map_kwargs
  | SaveToDisk string

text \<open>The calls that are preprocessing work.\<close>

fun is_dataset_map :: "event \<Rightarrow> bool" where
  "is_dataset_map (DatasetMap _ _) = True"
| "is_dataset_map _ = False"

record 'ds world =
  disk :: "string \<rightharpoonup> (string \<times> 'ds) list"
  calls :: "event list"

text \<open>
  The loop shared by the three stages:
  \<open>for key in dataset.keys(): result[key] = dataset[key].map(f, **kwargs)\<close>.
\<close>

fun map_splits ::
  "('ds \<Rightarrow> py_error + 'ds) \<Rightarrow> map_kwargs \<Rightarrow> (string \<times> 'ds) list \<Rightarrow> (string \<times> 'ds) list
     \<Rightarrow> 'ds world \<Rightarrow> (py_error + (string \<times> 'ds) list) \<times> 'ds world" where
  "map_splits f kwargs [] result w = (Inr result, w)"
| "map_splits f kwargs ((key, d) # rest) result w =
     (let w' = w\<lparr>calls := calls w @ [DatasetMap key kwargs]\<rparr>
      in case f d of
           Inl e \<Rightarrow> (Inl e, w')
         | Inr d' \<Rightarrow> map_splits f kwargs rest (AList.update key d' result) w')"

subsection \<open>Tokenize\<close>

text \<open>\<open>[encoding.word_ids(i) for i in range(len(encoding["input_ids"]))]\<close>.\<close>

fun word_ids_rows :: "(nat \<Rightarrow> py_error + int option list) \<Rightarrow> nat list
     \<Rightarrow> py_error + int option list list" where
  "word_ids_rows word_ids [] = Inr []"
| "word_ids_rows word_ids (i # is) =
     (case word_ids i of
        Inl e \<Rightarrow> Inl e
      | Inr ws \<Rightarrow> (case word_ids_rows word_ids is of Inl e \<Rightarrow> Inl e | Inr rest \<Rightarrow> Inr (ws # rest)))"

text \<open>
  The inner function \<open>tokenize\<close> of \<open>_tokenize_dataset\<close>. Appending an absent
  \<open>eos_token\<close> to a text raises \<open>TypeError\<close>.
\<close>

definition tokenize ::
  "('v, 'ds) TextDataModule \<Rightarrow> ('v, 'ds) collaborators \<Rightarrow> bool \<Rightarrow> bool \<Rightarrow> int option \<Rightarrow> bool
     \<Rightarrow> string list option \<Rightarrow> py_error + columns" where
  "tokenize self lib padding truncation max_length return_word_ids examples_text =
     (case examples_text of
        None \<Rightarrow> Inl (KeyError ''text'')
      | Some texts \<Rightarrow>
          (case (if add_eos_token (hparams self)
                 then (case tok_eos_token (tokenizer_of self) of
                         None \<Rightarrow> (if texts = [] then Inr [] else Inl TypeError)
                       | Some eos \<Rightarrow> Inr (map (\<lambda>text. text @ eos) texts))
                 else Inr texts) of
             Inl e \<Rightarrow> Inl e
           | Inr texts' \<Rightarrow>
               (case tok_call (tokenizer_of self)
                       \<lparr>kw_padding = padding,
                        kw_truncation = truncation,
                        kw_max_length = max_length,
                        kw_add_special_tokens = add_special_tokens (hparams self),
                        kw_return_token_type_ids = False,
                        kw_return_attention_mask = False,
                        kw_return_tensors = None\<rparr>
                       texts' of
                  Inl e \<Rightarrow> Inl e
                | Inr encoding \<Rightarrow>
                    let ids = [(''input_ids'', map (map Some) (enc_input_ids encoding))] in
                    if return_word_ids then
                      (if perceiver_tokenizer_configured self
                       then Inr (AList.update ''word_ids''
                                   (map (perceiver_word_ids lib) (enc_input_ids encoding)) ids)
                       else (case word_ids_rows (enc_word_ids encoding)
                                    [0..<length (enc_input_ids encoding)] of
                               Inl e \<Rightarrow> Inl e
                             | Inr ws \<Rightarrow> Inr (AList.update ''word_ids'' ws ids)))
                    else Inr ids)))"

definition tokenize_dataset ::
  "('v, 'ds) TextDataModule \<Rightarrow> ('v, 'ds) collaborators \<Rightarrow> (string \<times> 'ds) list
     \<Rightarrow> bool \<Rightarrow> bool \<Rightarrow> int option \<Rightarrow> bool
     \<Rightarrow> 'ds world \<Rightarrow> (py_error + (string \<times> 'ds) list) \<times> 'ds world" where
  "tokenize_dataset self lib dataset padding truncation max_length return_word_ids w =
     (let kwargs = \<lparr>mk_batched = True,
                     mk_batch_size = Some (preproc_batch_size (hparams self)),
                     mk_num_proc = preproc_workers_of (hparams self),
                     mk_input_columns = None,
                     mk_remove_columns = Some [''text''],
                     mk_load_from_cache_file = False,
                     mk_desc = ''Running tokenizer on dataset''\<rparr>
      in map_splits
           (ds_map lib
              (OnExamples (tokenize self lib padding truncation max_length return_word_ids))
              kwargs)
           kwargs dataset [] w)"

subsection \<open>Chunk\<close>

definition chunk_dataset ::
  "('v, 'ds) TextDataModule \<Rightarrow> ('v, 'ds) collaborators \<Rightarrow> (string \<times> 'ds) list
     \<Rightarrow> int \<Rightarrow> string list \<Rightarrow> string list
     \<Rightarrow> 'ds world \<Rightarrow> (py_error + (string \<times> 'ds) list) \<times> 'ds world" where
  "chunk_dataset self lib dataset chunk_size include_keys remove_keys w =
     (let kwargs = \<lparr>mk_batched = True,
                     mk_batch_size = Some (preproc_batch_size (hparams self)),
                     mk_num_proc = preproc_workers_of (hparams self),
                     mk_input_columns = Some include_keys,
                     mk_remove_columns = Some remove_keys,
                     mk_load_from_cache_file = False,
                     mk_desc = ''Split dataset into chunks of size '' @ str_int chunk_size\<rparr>
      in map_splits
           (ds_map lib (OnColumns (chunk chunk_size include_keys)) kwargs)
           kwargs dataset [] w)"

subsection \<open>Mask\<close>

text \<open>
  \<open>_mask_dataset\<close> builds its own \<open>WordMaskingCollator\<close> before it maps over the splits.
\<close>

definition mask_dataset ::
  "('v, 'ds) TextDataModule \<Rightarrow> ('v, 'ds) collaborators \<Rightarrow> (string \<times> 'ds) list
     \<Rightarrow> 'ds world \<Rightarrow> (py_error + (string \<times> 'ds) list) \<times> 'ds world" where
  "mask_dataset self lib dataset w =
     (case new_WordMaskingCollator (collator_classes_of lib) (tokenizer_of self) (mask_prob (hparams self)) of
        Inl e \<Rightarrow> (Inl e, w)
      | Inr wmc \<Rightarrow>
          let kwargs = \<lparr>mk_batched = False,
                         mk_batch_size = None,
                         mk_num_proc = preproc_workers_of (hparams self),
                         mk_input_columns = None,
                         mk_remove_columns = None,
                         mk_load_from_cache_file = False,
                         mk_desc = ''Mask words in dataset''\<rparr>
          in map_splits (ds_map lib (OnExample (mask_words_1 lib wmc)) kwargs) kwargs dataset [] w)"

subsection \<open>The pipeline and the cache\<close>

text \<open>\<open>_prepare_dataset\<close>: one branch per task.\<close>

definition prepare_dataset ::
  "('v, 'ds) TextDataModule \<Rightarrow> ('v, 'ds) collaborators \<Rightarrow> (string \<times> 'ds) list
     \<Rightarrow> 'ds world \<Rightarrow> (py_error + (string \<times> 'ds) list) \<times> 'ds world" where
  "prepare_dataset self lib dataset w =
     (case task (hparams self) of
        clm \<Rightarrow>
          (case tokenize_dataset self lib dataset False False None False w of
             (Inl e, w1) \<Rightarrow> (Inl e, w1)
           | (Inr tokenized, w1) \<Rightarrow>
               chunk_dataset self lib tokenized (max_seq_len (hparams self) + 1)
                 [''input_ids''] [] w1)
      | mlm \<Rightarrow>
          (case tokenize_dataset self lib dataset False False None True w of
             (Inl e, w1) \<Rightarrow> (Inl e, w1)
           | (Inr tokenized, w1) \<Rightarrow>
               (case chunk_dataset self lib tokenized (max_seq_len (hparams self))
                       [''input_ids'', ''word_ids''] [] w1 of
                  (Inl e, w2) \<Rightarrow> (Inl e, w2)
                | (Inr chunked, w2) \<Rightarrow>
                    if static_masking (hparams self)
                    then mask_dataset self lib chunked w2
                    else (Inr chunked, w2)))
      | clf \<Rightarrow>
          (case map_of dataset ''train'' of
             None \<Rightarrow> (Inl (KeyError ''train''), w)
           | Some train \<Rightarrow>
               if ''label'' \<notin> set (ds_column_names lib train) then (Inl AssertionError, w)
               else
                 (case map_of dataset ''valid'' of
                    None \<Rightarrow> (Inl (KeyError ''valid''), w)
                  | Some valid \<Rightarrow>
                      if ''label'' \<notin> set (ds_column_names lib valid)
                      then (Inl AssertionError, w)
                      else tokenize_dataset self lib dataset False True
                             (Some (max_seq_len (hparams self))) False w)))"

text \<open>
  \<open>prepare_data\<close>. \<open>load_source_dataset\<close> is supplied by a subclass; in the base class it
  is \<open>Inl NotImplementedError\<close>. \<open>os.path.exists\<close> asks whether the path is on disk and
  \<open>save_to_disk\<close> puts the prepared dictionary there.
\<close>

definition prepare_data ::
  "(string \<Rightarrow> string) \<Rightarrow> ('v \<Rightarrow> string) \<Rightarrow> (py_error + (string \<times> 'ds) list)
     \<Rightarrow> ('v, 'ds) TextDataModule \<Rightarrow> ('v, 'ds) collaborators
     \<Rightarrow> 'ds world \<Rightarrow> (py_error + unit) \<times> 'ds world" where
  "prepare_data md5_hex fmt load_source_dataset self lib w =
     (let dir = preproc_dir md5_hex fmt (hparams self) in
      if dir \<notin> dom (disk w) then
        (let w0 = w\<lparr>calls := calls w @ [LoadSourceDataset]\<rparr> in
         case load_source_dataset of
           Inl e \<Rightarrow> (Inl e, w0)
         | Inr dataset \<Rightarrow>
             (case prepare_dataset self lib dataset w0 of
                (Inl e, w1) \<Rightarrow> (Inl e, w1)
              | (Inr prepared, w1) \<Rightarrow>
                  (Inr (), w1\<lparr>disk := (disk w1)(dir \<mapsto> prepared),
                               calls := calls w1 @ [SaveToDisk dir]\<rparr>)))
      else (Inr (), w))"

subsection \<open>Split\<close>

text \<open>
  \<open>_train_valid_split\<close>. \<open>train_test_split\<close> is the dataset engine's; it returns a
  dictionary with the keys \<open>train\<close> and \<open>test\<close>.
\<close>

definition train_valid_split ::
  "('ds \<Rightarrow> 'sz \<Rightarrow> 'sz \<Rightarrow> bool \<Rightarrow> py_error + (string \<times> 'ds) list)
     \<Rightarrow> 'v hparams \<Rightarrow> 'ds \<Rightarrow> 'sz \<Rightarrow> 'sz \<Rightarrow> py_error + (string \<times> 'ds) list" where
  "train_valid_split train_test_split hp dataset train_size test_size =
     (case train_test_split dataset train_size test_size (\<not> random_shift hp) of
        Inl e \<Rightarrow> Inl e
      | Inr split \<Rightarrow>
          (case map_of split ''train'' of
             None \<Rightarrow> Inl (KeyError ''train'')
           | Some train \<Rightarrow>
               (case map_of split ''test'' of
                  None \<Rightarrow> Inl (KeyError ''test'')
                | Some test \<Rightarrow> Inr [(''train'', train), (''valid'', test)])))"

section \<open>A small tokenizer, dataset engine and configuration for concrete runs\<close>

text \<open>
  A byte-level tokenizer: every character is one token, its code; every token is its
  own word. It truncates when asked to and never pads.
\<close>

definition toy_encode :: "tok_kwargs \<Rightarrow> string \<Rightarrow> int list" where
  "toy_encode kw text =
     (let ids = map (\<lambda>c. int (of_char c)) text
      in case kw_max_length kw of
           Some n \<Rightarrow> (if kw_truncation kw then take (nat n) ids else ids)
         | None \<Rightarrow> ids)"

definition toy_tokenizer :: tokenizer_obj where
  "toy_tokenizer =
     \<lparr>tok_padding_side = ''right'',
      tok_pad_token = None,
      tok_eos_token = Some ''.'',
      tok_mask_token = None,
      tok_vocab_size = 256,
      tok_call = (\<lambda>kw texts. Inr
         \<lparr>enc_input_ids = map (toy_encode kw) texts,
          enc_attention_mask =
            (if kw_return_attention_mask kw
             then Some (map (\<lambda>t. map (\<lambda>_. 1) (toy_encode kw t)) texts) else None),
          enc_word_ids = (\<lambda>i. if i < length texts
             then Inr (map (\<lambda>j. Some (int j)) [0..<length (toy_encode kw (texts ! i))])
             else Inl IndexError)\<rparr>)\<rparr>"

text \<open>
  Two tokenizers can be loaded: the small one, which has no mask token, and the same
  with a mask token.
\<close>

definition toy_from_pretrained :: "string \<Rightarrow> py_error + tokenizer_obj" where
  "toy_from_pretrained name =
     (if name = ''toy'' then Inr toy_tokenizer
      else if name = ''toy-mask'' then Inr (toy_tokenizer\<lparr>tok_mask_token := Some ''[MASK]''\<rparr>)
      else Inl (LibraryError ''unknown tokenizer''))"

text \<open>
  Collator classes for concrete runs. The token-masking collator refuses a tokenizer
  without a mask token with a \<open>ValueError\<close>; the other constructors keep their arguments.
\<close>

definition toy_classes :: "'v collator_classes" where
  "toy_classes =
     \<lparr>new_WordMaskingCollator = (\<lambda>tok p. Inr (WordMaskingCollator tok p)),
      new_TokenMaskingCollator = (\<lambda>tok p.
         case tok_mask_token tok of
           None \<Rightarrow> Inl (ValueError ''This tokenizer does not have a mask token'')
         | Some _ \<Rightarrow> Inr (TokenMaskingCollator tok p)),
      new_DefaultCollator = (\<lambda>tok n. Inr (DefaultCollator tok n)),
      new_PerceiverTokenizerUtil = (\<lambda>tok. Inr ())\<rparr>"

text \<open>The default configuration of the constructor; numbers are kept as their rendering.\<close>

definition toy_hparams :: "string hparams" where
  "toy_hparams =
     \<lparr>dataset_dir = ''.cache'', tokenizer = ''toy'', max_seq_len = 4, task = mlm,
      mask_prob = ''0.15'', mask_words = True, static_masking = False,
      add_special_tokens = False, add_eos_token = False, padding_side = None,
      random_train_shift = False, random_valid_shift = False,
      random_train_truncation = False, random_valid_truncation = False,
      random_min_seq_len = 16, preproc_batch_size = 1000, preproc_workers = None,
      batch_size = 64, valid_batch_size = None, num_workers = 3, pin_memory = True,
      source_train_size = None, source_valid_size = None\<rparr>"

definition toy_preprocessor :: TextPreprocessor where
  "toy_preprocessor =
     \<lparr>pre_tokenizer = toy_tokenizer, pre_max_seq_len = 4, pre_add_special_tokens = False\<rparr>"

text \<open>A random generator for concrete runs: a counter, reduced modulo the bound.\<close>

definition toy_randint :: "nat \<Rightarrow> nat \<Rightarrow> (py_error + nat) \<times> nat" where
  "toy_randint n g = (if n = 0 then (Inl RuntimeError, g) else (Inr (g mod n), Suc g))"

text \<open>The engine's split on a list of rows; reversal stands for its shuffle.\<close>

definition toy_train_test_split ::
  "'a list \<Rightarrow> nat \<Rightarrow> nat \<Rightarrow> bool \<Rightarrow> py_error + (string \<times> 'a list) list" where
  "toy_train_test_split ds train_size test_size shuffle =
     (let rows = (if shuffle then rev ds else ds)
      in if train_size + test_size \<le> length ds
         then Inr [(''train'', take train_size rows),
                   (''test'', take test_size (drop train_size rows))]
         else Inl (ValueError ''sizes exceed the dataset''))"

definition toy_rows :: "int example list" where
  "toy_rows =
     [[(''input_ids'', [11, 12, 13, 14]), (''word_ids'', [0, 0, 1, 1])],
      [(''input_ids'', [15, 16, 17, 18]), (''word_ids'', [2, 3, 3, 4])],
      [(''input_ids'', [19, 20, 21, 22]), (''word_ids'', [5, 5, 5, 6])]]"

text \<open>
  A small dataset engine: a dataset is a list of named columns of cells, and \<open>map\<close>
  passes the whole dataset to the function as a single batch.
\<close>

datatype cell = Text string | Seq "int option list" | Label int

type_synonym toy_ds = "(string \<times> cell list) list"

fun cell_text :: "cell \<Rightarrow> string" where
  "cell_text (Text s) = s"
| "cell_text _ = []"

fun cell_seq :: "cell \<Rightarrow> int option list" where
  "cell_seq (Seq xs) = xs"
| "cell_seq _ = []"

definition toy_put_columns :: "columns \<Rightarrow> toy_ds \<Rightarrow> toy_ds" where
  "toy_put_columns cols ds = fold (\<lambda>(k, rows). AList.update k (map Seq rows)) cols ds"

definition toy_map :: "map_function \<Rightarrow> map_kwargs \<Rightarrow> toy_ds \<Rightarrow> py_error + toy_ds" where
  "toy_map fn kw ds =
     (let removed = (case mk_remove_columns kw of None \<Rightarrow> [] | Some r \<Rightarrow> r);
          kept = filter (\<lambda>(k, _). k \<notin> set removed) ds
      in case fn of
           OnExamples f \<Rightarrow>
             (case f (map_option (map cell_text) (map_of ds ''text'')) of
                Inl e \<Rightarrow> Inl e
              | Inr cols \<Rightarrow> Inr (toy_put_columns cols kept))
         | OnColumns f \<Rightarrow>
             (case mk_input_columns kw of
                None \<Rightarrow> Inl (LibraryError ''input_columns expected'')
              | Some ks \<Rightarrow>
                  (case those (map (\<lambda>k. map_option (map cell_seq) (map_of ds k)) ks) of
                     None \<Rightarrow> Inl (LibraryError ''missing input column'')
                   | Some args \<Rightarrow>
                       (case f args of
                          Inl e \<Rightarrow> Inl e
                        | Inr cols \<Rightarrow> Inr (toy_put_columns cols kept))))
         | OnExample f \<Rightarrow> Inl (LibraryError ''per-example map not supported''))"

definition toy_lib :: "(string, toy_ds) collaborators" where
  "toy_lib =
     \<lparr>ds_column_names = map fst,
      ds_map = toy_map,
      collator_classes_of = toy_classes,
      perceiver_word_ids = map (\<lambda>_. None),
      mask_words_1 = (\<lambda>_ example. Inr example)\<rparr>"

text \<open>The module that \<open>init\<close> builds from the small tokenizer for a given task.\<close>

definition toy_module :: "Task \<Rightarrow> (string, toy_ds) TextDataModule" where
  "toy_module t =
     \<lparr>hparams = toy_hparams\<lparr>task := t\<rparr>,
      tokenizer_of = toy_tokenizer,
      perceiver_tokenizer_configured = False,
      collator_of = (if t = mlm then WordMaskingCollator toy_tokenizer ''0.15''
                     else DefaultCollator toy_tokenizer 4),
      ds_train = None, ds_valid = None\<rparr>"

definition toy_source :: "(string \<times> toy_ds) list" where
  "toy_source =
     [(''train'', [(''text'', [Text ''abc''])]),
      (''valid'', [(''text'', [Text ''de''])])]"

definition empty_world :: "'ds world" where
  "empty_world = \<lparr>disk = Map.empty, calls = []\<rparr>"

text \<open>A stand-in digest for concrete runs: the length of the hashed string.\<close>

definition toy_digest :: "string \<Rightarrow> string" where
  "toy_digest s = str_nat (length s)"

section \<open>Properties of the chunking stage\<close>

lemma py_range_multiples:
  assumes "0 < c"
  shows "j \<le> m \<Longrightarrow> py_range (int j * c) (int m * c) c = map (\<lambda>k. int k * c) [j..<m]"
proof (induction "m - j" arbitrary: j)
  case 0
  then have "j = m" by simp
  then show ?case using assms by (simp add: py_range.simps)
next
  case (Suc d)
  then have lt: "j < m" and d: "d = m - Suc j" and le: "Suc j \<le> m" by simp_all
  from lt assms have "int j * c < int m * c" by simp
  then have "py_range (int j * c) (int m * c) c
      = int j * c # py_range (int (Suc j) * c) (int m * c) c"
    using assms by (subst py_range.simps) (simp add: algebra_simps)
  also have "py_range (int (Suc j) * c) (int m * c) c = map (\<lambda>k. int k * c) [Suc j..<m]"
    using Suc.hyps(1) [OF d le] .
  finally show ?case using lt by (simp add: upt_conv_Cons)
qed

lemma py_range_from_zero:
  assumes "0 < c"
  shows "py_range 0 (int m * c) c = map (\<lambda>k. int k * c) [0..<m]"
  using py_range_multiples [OF assms, of 0 m] by simp

lemma py_range_single:
  assumes "0 < l" "l \<le> c"
  shows "py_range 0 l c = [0]"
proof -
  have "py_range 0 l c = 0 # py_range c l c"
    using assms by (subst py_range.simps) simp
  also have "py_range c l c = []"
    using assms by (subst py_range.simps) simp
  finally show ?thesis .
qed

lemma py_range_empty: "py_range 0 0 c = []"
  by (subst py_range.simps) simp

lemma py_slice_window:
  assumes "0 \<le> i" "0 < c"
  shows "py_slice t i (i + c) = take (nat c) (drop (nat i) t)"
proof (cases "nat i < length t")
  case True
  then show ?thesis using assms
    by (simp add: py_slice_def slice_bound_def Let_def nat_add_distrib min_def)
next
  case False
  then show ?thesis using assms
    by (simp add: py_slice_def slice_bound_def Let_def nat_add_distrib min_def)
qed

lemma concat_windows:
  "concat (map (\<lambda>k. take c (drop (k * c) t)) [0..<m]) = take (m * c) t"
proof (induction m)
  case 0
  show ?case by simp
next
  case (Suc m)
  have "take (m * c + c) t = take (m * c) t @ take c (drop (m * c) t)"
    by (rule take_add)
  moreover have "Suc m * c = m * c + c" by simp
  ultimately show ?case using Suc by (simp add: add.commute)
qed

lemma length_window:
  assumes "k < m" "m * c \<le> length t"
  shows "length (take c (drop (k * c) t)) = c"
proof -
  from assms(1) have "Suc k * c \<le> m * c" by (intro mult_le_mono1) simp
  with assms(2) have "k * c + c \<le> length t" by simp
  then show ?thesis by simp
qed



lemma windows_full:
  assumes "0 < c"
  shows "map (\<lambda>i. py_slice t i (i + c)) (py_range 0 (int m * c) c)
         = map (\<lambda>k. take (nat c) (drop (k * nat c) t)) [0..<m]"
proof -
  have "py_slice t (int k * c) (int k * c + c) = take (nat c) (drop (k * nat c) t)" for k
    using assms py_slice_window [of "int k * c" c t] by (simp add: nat_mult_distrib)
  then show ?thesis by (simp add: py_range_from_zero [OF assms] comp_def)
qed

lemma chunk_unfold:
  assumes "chunk_size \<noteq> 0"
    and "chain_columns (k0 # ks) args [] = Inr chained"
    and "map_of chained k0 = Some t"
  shows "chunk chunk_size (k0 # ks) args =
     Inr (map (\<lambda>(k, u). (k, map (\<lambda>i. py_slice u i (i + chunk_size))
            (py_range 0 (if chunk_size \<le> int (length t)
                         then (int (length t) div chunk_size) * chunk_size
                         else int (length t)) chunk_size))) chained)"
  using assms unfolding chunk_def by (simp add: Let_def)


lemma chunk_field:
  assumes "0 < chunk_size"
    and "chain_columns (k0 # ks) args [] = Inr chained"
    and "map_of chained k0 = Some t"
    and "map_of chained k = Some u"
  shows "\<exists>res. chunk chunk_size (k0 # ks) args = Inr res \<and>
     map_of res k = Some
       (if chunk_size \<le> int (length t) \<or> t = []
        then map (\<lambda>j. take (nat chunk_size) (drop (j * nat chunk_size) u))
               [0..<length t div nat chunk_size]
        else [take (nat chunk_size) u])"
proof -
  define c where "c = nat chunk_size"
  define n where "n = length t"
  define l where "l = (if chunk_size \<le> int n then (int n div chunk_size) * chunk_size else int n)"
  define cs where "cs = map (\<lambda>i. py_slice u i (i + chunk_size)) (py_range 0 l chunk_size)"
  define res where "res = map (\<lambda>(k, u). (k, map (\<lambda>i. py_slice u i (i + chunk_size))
            (py_range 0 l chunk_size))) chained"
  have C: "chunk_size = int c" and cpos: "0 < c" using assms(1) by (simp_all add: c_def)
  have run: "chunk chunk_size (k0 # ks) args = Inr res"
    using chunk_unfold [OF _ assms(2,3), of chunk_size] assms(1)
    by (simp add: res_def l_def n_def)
  have look: "map_of res k = Some cs"
    using assms(4) by (simp add: res_def cs_def map_of_map)
  have full: "cs = map (\<lambda>j. take c (drop (j * c) u)) [0..<n div c]"
    if "chunk_size \<le> int n \<or> t = []"
  proof -
    have dv: "int n div chunk_size = int (n div c)" by (simp add: C zdiv_int)
    have l_eq: "l = int (n div c) * chunk_size"
    proof (cases "chunk_size \<le> int n")
      case True
      then show ?thesis by (simp add: l_def dv)
    next
      case False
      with that have "n = 0" by (simp add: n_def)
      then show ?thesis using False by (simp add: l_def)
    qed
    show ?thesis
      unfolding cs_def l_eq using windows_full [OF assms(1), of u "n div c"] by (simp add: c_def)
  qed
  have short: "cs = [take c u]" if "\<not> (chunk_size \<le> int n \<or> t = [])"
  proof -
    from that have l_eq: "l = int n" and npos: "0 < int n" and lt: "int n \<le> chunk_size"
      by (simp_all add: l_def n_def)
    have "py_range 0 l chunk_size = [0]"
      unfolding l_eq by (rule py_range_single [OF npos lt])
    then have "cs = [py_slice u 0 (0 + chunk_size)]" by (simp add: cs_def)
    also have "py_slice u 0 (0 + chunk_size) = take c (drop 0 u)"
      using py_slice_window [of 0 chunk_size u] assms(1) by (simp add: c_def)
    finally show ?thesis by simp
  qed
  show ?thesis using run look full short unfolding n_def c_def by auto
qed

text \<open>
  Claim C1, as amended. For a chunk size \<open>C > 0\<close> and a batch whose first included
  column concatenates to \<open>t\<close> of length \<open>L\<close>, \<open>chunk\<close> returns the included columns, each
  cut at the same places. When \<open>L \<ge> C\<close> or \<open>L = 0\<close>, every column gets exactly
  \<open>floor(L/C)\<close> chunks, the windows of \<open>C\<close> elements at the multiples of \<open>C\<close>, whose concatenation is the first \<open>C * floor(L/C)\<close> elements of that
  column, and every chunk of a column as long as the first one (\<open>input_ids\<close> itself, and
  the aligned \<open>word_ids\<close>) has length exactly \<open>C\<close>. When \<open>0 < L < C\<close>, every column gets a
  single chunk, its first \<open>C\<close> elements, which for a column as long as the first one is
  the whole column, of length \<open>L\<close>.
\<close>

theorem chunk_exact:
  assumes "0 < chunk_size"
    and "chain_columns (k0 # ks) args [] = Inr chained"
    and "map_of chained k0 = Some t"
  shows "\<exists>res. chunk chunk_size (k0 # ks) args = Inr res \<and> map fst res = map fst chained \<and>
     (\<forall>k u. map_of chained k = Some u \<longrightarrow>
        (\<exists>cs. map_of res k = Some cs \<and>
           (chunk_size \<le> int (length t) \<or> t = [] \<longrightarrow>
              cs = map (\<lambda>j. take (nat chunk_size) (drop (j * nat chunk_size) u))
                     [0..<length t div nat chunk_size] \<and>
              int (length cs) = int (length t) div chunk_size \<and>
              concat cs = take (nat (chunk_size * (int (length t) div chunk_size))) u \<and>
              (length u = length t \<longrightarrow> (\<forall>c \<in> set cs. int (length c) = chunk_size))) \<and>
           (int (length t) < chunk_size \<and> t \<noteq> [] \<longrightarrow>
              cs = [take (nat chunk_size) u] \<and> (length u = length t \<longrightarrow> cs = [u]))))"
proof -
  define c where "c = nat chunk_size"
  define m where "m = length t div c"
  have C: "chunk_size = int c" and cpos: "0 < c" using assms(1) by (simp_all add: c_def)
  from assms(1) have nz: "chunk_size \<noteq> 0" by simp
  from chunk_unfold [OF nz assms(2,3)] obtain res
    where run: "chunk chunk_size (k0 # ks) args = Inr res"
      and names: "map fst res = map fst chained"
    by (auto simp: comp_def case_prod_unfold)
  have dv: "int (length t) div chunk_size = int m" by (simp add: C m_def zdiv_int)
  have "chunk_size * (int (length t) div chunk_size) = int (m * c)"
    unfolding dv by (simp add: C mult.commute)
  then have prefix_len: "nat (chunk_size * (int (length t) div chunk_size)) = m * c"
    by (simp only: nat_int)
  have fit: "m * c \<le> length t" by (simp add: m_def)
  have column: "\<exists>cs. map_of res k = Some cs \<and>
           (chunk_size \<le> int (length t) \<or> t = [] \<longrightarrow>
              cs = map (\<lambda>j. take (nat chunk_size) (drop (j * nat chunk_size) u))
                     [0..<length t div nat chunk_size] \<and>
              int (length cs) = int (length t) div chunk_size \<and>
              concat cs = take (nat (chunk_size * (int (length t) div chunk_size))) u \<and>
              (length u = length t \<longrightarrow> (\<forall>x \<in> set cs. int (length x) = chunk_size))) \<and>
           (int (length t) < chunk_size \<and> t \<noteq> [] \<longrightarrow>
              cs = [take (nat chunk_size) u] \<and> (length u = length t \<longrightarrow> cs = [u]))"
    if look_u: "map_of chained k = Some u" for k u
  proof -
    define cs where "cs = (if chunk_size \<le> int (length t) \<or> t = []
        then map (\<lambda>j. take c (drop (j * c) u)) [0..<m] else [take c u])"
    from chunk_field [OF assms(1,2,3) look_u] run
    have look: "map_of res k = Some cs"
      unfolding cs_def c_def m_def by simp
    have full: "chunk_size \<le> int (length t) \<or> t = [] \<longrightarrow>
        cs = map (\<lambda>j. take (nat chunk_size) (drop (j * nat chunk_size) u))
                     [0..<length t div nat chunk_size] \<and>
        int (length cs) = int (length t) div chunk_size \<and>
        concat cs = take (nat (chunk_size * (int (length t) div chunk_size))) u \<and>
        (length u = length t \<longrightarrow> (\<forall>x \<in> set cs. int (length x) = chunk_size))"
    proof (rule impI)
      assume that: "chunk_size \<le> int (length t) \<or> t = []"
      have cs_eq: "cs = map (\<lambda>j. take c (drop (j * c) u)) [0..<m]"
        using that by (simp add: cs_def)
      have count: "int (length cs) = int (length t) div chunk_size"
        unfolding dv by (simp add: cs_eq)
      have prefix: "concat cs = take (nat (chunk_size * (int (length t) div chunk_size))) u"
        unfolding prefix_len cs_eq by (rule concat_windows)
      have sizes: "length u = length t \<longrightarrow> (\<forall>x \<in> set cs. int (length x) = chunk_size)"
      proof (intro impI ballI)
        fix x assume aligned: "length u = length t" and "x \<in> set cs"
        then obtain j where j: "j < m" and x: "x = take c (drop (j * c) u)"
          by (auto simp: cs_eq)
        from fit aligned have "m * c \<le> length u" by simp
        from length_window [OF j this] have "length x = c" by (simp only: x)
        then show "int (length x) = chunk_size" by (simp only: C)
      qed
      have cuts: "cs = map (\<lambda>j. take (nat chunk_size) (drop (j * nat chunk_size) u))
                     [0..<length t div nat chunk_size]"
        using cs_eq by (simp only: c_def m_def)
      show "cs = map (\<lambda>j. take (nat chunk_size) (drop (j * nat chunk_size) u))
                     [0..<length t div nat chunk_size] \<and>
        int (length cs) = int (length t) div chunk_size \<and>
        concat cs = take (nat (chunk_size * (int (length t) div chunk_size))) u \<and>
        (length u = length t \<longrightarrow> (\<forall>x \<in> set cs. int (length x) = chunk_size))"
        by (intro conjI cuts count prefix sizes)
    qed
    have short: "int (length t) < chunk_size \<and> t \<noteq> [] \<longrightarrow>
        cs = [take (nat chunk_size) u] \<and> (length u = length t \<longrightarrow> cs = [u])"
      by (simp add: cs_def C)
    show ?thesis by (rule exI [of _ cs]) (intro conjI look full short)
  qed
  show ?thesis by (rule exI [of _ res], intro conjI allI impI run names) (erule column)
qed

text \<open>
  The amended claim C1 at a batch of two examples with the two aligned columns and
  \<open>C = 2\<close>: five tokens give two chunks of \<open>input_ids\<close> and two of \<open>word_ids\<close>.
\<close>

theorem chunk_exact_witness:
  "chunk 2 [''input_ids'', ''word_ids''] [[[11, 12], [13, 14, 15]], [[0, 0], [0, 1, 2::int]]] =
     Inr [(''input_ids'', [[11, 12], [13, 14]]), (''word_ids'', [[0, 0], [0, 1]])]"
proof -
  have h1: "0 < (2::int)" by simp
  have h2: "chain_columns (''input_ids'' # [''word_ids''])
       [[[11, 12], [13, 14, 15]], [[0, 0], [0, 1, 2::int]]] []
     = Inr [(''input_ids'', [11, 12, 13, 14, 15]), (''word_ids'', [0, 0, 0, 1, 2])]"
    by simp
  have h3: "map_of [(''input_ids'', [11, 12, 13, 14, 15]), (''word_ids'', [0, 0, 0, 1, 2::int])]
      ''input_ids'' = Some [11, 12, 13, 14, 15]"
    by simp
  have h4: "map_of [(''input_ids'', [11, 12, 13, 14, 15]), (''word_ids'', [0, 0, 0, 1, 2::int])]
      ''word_ids'' = Some [0, 0, 0, 1, 2]"
    by simp
  from chunk_exact [OF h1 h2 h3] obtain res where
    run: "chunk 2 [''input_ids'', ''word_ids''] [[[11, 12], [13, 14, 15]], [[0, 0], [0, 1, 2::int]]]
      = Inr res"
    and names: "map fst res =
      map fst [(''input_ids'', [11, 12, 13, 14, 15]), (''word_ids'', [0, 0, 0, 1, 2::int])]"
    and column: "\<forall>k u.
      map_of [(''input_ids'', [11, 12, 13, 14, 15]), (''word_ids'', [0, 0, 0, 1, 2::int])] k = Some u \<longrightarrow>
        (\<exists>cs. map_of res k = Some cs \<and>
           (2 \<le> int (length [11, 12, 13, 14, 15::int]) \<or> [11, 12, 13, 14, 15::int] = [] \<longrightarrow>
              cs = map (\<lambda>j. take (nat 2) (drop (j * nat 2) u))
                     [0..<length [11, 12, 13, 14, 15::int] div nat 2] \<and>
              int (length cs) = int (length [11, 12, 13, 14, 15::int]) div 2 \<and>
              concat cs = take (nat (2 * (int (length [11, 12, 13, 14, 15::int]) div 2))) u \<and>
              (length u = length [11, 12, 13, 14, 15::int] \<longrightarrow> (\<forall>c \<in> set cs. int (length c) = 2))) \<and>
           (int (length [11, 12, 13, 14, 15::int]) < 2 \<and> [11, 12, 13, 14, 15::int] \<noteq> [] \<longrightarrow>
              cs = [take (nat 2) u] \<and> (length u = length [11, 12, 13, 14, 15::int] \<longrightarrow> cs = [u])))"
    by blast
  from column [rule_format, OF h3] obtain ci where
    ci: "map_of res ''input_ids'' = Some ci" "int (length ci) = 2"
      "concat ci = [11, 12, 13, 14]" "\<forall>c \<in> set ci. int (length c) = 2"
    by auto
  from column [rule_format, OF h4] obtain cw where
    cw: "map_of res ''word_ids'' = Some cw" "int (length cw) = 2"
      "concat cw = [0, 0, 0, 1]" "\<forall>c \<in> set cw. int (length c) = 2"
    by auto
  have split: "xs = [[x1, x2], [x3, x4]]"
    if "int (length xs) = 2" "concat xs = [x1, x2, x3, x4]" "\<forall>c \<in> set xs. int (length c) = 2"
    for xs :: "int list list" and x1 x2 x3 x4
  proof -
    from that(1) obtain a b where xs: "xs = [a, b]"
      by (auto simp: numeral_eq_Suc length_Suc_conv)
    from that(3) obtain a1 a2 b1 b2 where "a = [a1, a2]" "b = [b1, b2]"
      unfolding xs by (auto simp: numeral_eq_Suc length_Suc_conv)
    with that(2) show ?thesis unfolding xs by simp
  qed
  from names obtain vi vw where shape: "res = [(''input_ids'', vi), (''word_ids'', vw)]"
    by (auto simp: map_eq_Cons_conv)
  from ci(1) cw(1) have "vi = ci" "vw = cw" by (simp_all add: shape)
  with split [OF ci(2,3,4)] split [OF cw(2,3,4)] shape run show ?thesis by simp
qed

text \<open>
  Claim C1 as stated fails for a batch shorter than the chunk size: with \<open>L = 3\<close> and
  \<open>C = 4\<close> one chunk of length 3 is emitted, where \<open>floor(3/4) = 0\<close> chunks of length 4
  are claimed.
\<close>

theorem chunk_exact_counterexample:
  "chunk 4 [''input_ids''] [[[11, 12], [13::int]]] = Inr [(''input_ids'', [[11, 12, 13]])] \<and>
   int (length [[11, 12, 13::int]]) \<noteq> int (length (concat [[11, 12], [13::int]])) div 4 \<and>
   int (length [11, 12, 13::int]) \<noteq> 4"
  by (simp add: chunk_def py_range.simps py_slice_def slice_bound_def)

text \<open>
  Claim C5. With \<open>chunk_size = 1\<close> the chunks of the first included column concatenate
  back to the whole concatenated column; every other included column is cut at the same
  boundaries, so it is reproduced up to the length of the first one.
\<close>

theorem chunk_size_one_roundtrip:
  assumes "chain_columns (k0 # ks) args [] = Inr chained"
    and "map_of chained k0 = Some t"
  shows "\<exists>res cs. chunk 1 (k0 # ks) args = Inr res \<and> map_of res k0 = Some cs \<and> concat cs = t \<and>
     (\<forall>k u. map_of chained k = Some u \<longrightarrow>
        (\<exists>cu. map_of res k = Some cu \<and> concat cu = take (length t) u))"
proof -
  have pos: "0 < (1::int)" by simp
  have field: "\<exists>res. chunk 1 (k0 # ks) args = Inr res \<and>
      map_of res k = Some (map (\<lambda>j. take 1 (drop (j * 1) u)) [0..<length t])"
    if "map_of chained k = Some u" for k u
  proof (cases "t = []")
    case True
    then show ?thesis using chunk_field [OF pos assms that] by simp
  next
    case False
    then have "1 \<le> int (length t)" by (cases t) simp_all
    then show ?thesis using chunk_field [OF pos assms that] by simp
  qed
  obtain res where run: "chunk 1 (k0 # ks) args = Inr res"
    using field [OF assms(2)] by blast
  have each: "\<exists>cu. map_of res k = Some cu \<and> concat cu = take (length t) u"
    if "map_of chained k = Some u" for k u
    using field [OF that] run concat_windows [of 1 u "length t"] by auto
  from each [OF assms(2)] obtain cs where "map_of res k0 = Some cs" "concat cs = t" by auto
  with run each show ?thesis by blast
qed

text \<open>Claim C5 at a batch of three examples, one of them empty.\<close>

theorem chunk_size_one_roundtrip_witness:
  "chain_columns [''input_ids''] [[[11, 12], [], [13::int]]] [] = Inr [(''input_ids'', [11, 12, 13])] \<and>
   map_of [(''input_ids'', [11, 12, 13::int])] ''input_ids'' = Some [11, 12, 13] \<and>
   (\<exists>res cs. chunk 1 [''input_ids''] [[[11, 12], [], [13::int]]] = Inr res \<and>
      map_of res ''input_ids'' = Some cs \<and> concat cs = [11, 12, 13])"
proof -
  have h1: "chain_columns (''input_ids'' # []) [[[11, 12], [], [13::int]]] []
      = Inr [(''input_ids'', [11, 12, 13])]"
    by simp
  have h2: "map_of [(''input_ids'', [11, 12, 13::int])] ''input_ids'' = Some [11, 12, 13]"
    by simp
  show ?thesis using h1 h2 chunk_size_one_roundtrip [OF h1 h2] by auto
qed

section \<open>Properties of the constructor\<close>

text \<open>
  Claim C7, as amended. Constructing the module with \<open>static_masking\<close> set and
  \<open>mask_words\<close> unset fails with the \<open>ValueError\<close> that names the two options, whatever
  the tokenizer loader and the other constructors would do: the check runs before the
  tokenizer is loaded, and the constructor touches neither the disk nor a dataset. For
  every other combination of the two flags the check passes: the constructor then
  fails exactly when loading the tokenizer, building the tokenizer utility or building
  the collator fails, with that error, and otherwise returns the module, with no
  dataset set up.
\<close>

theorem init_checks_masking_flags:
  fixes from_pretrained :: "string \<Rightarrow> py_error + tokenizer_obj"
    and cls :: "'v collator_classes" and hp :: "'v hparams"
  shows
  "(static_masking hp \<and> \<not> mask_words hp \<longrightarrow>
      (init from_pretrained cls hp :: py_error + ('v, 'ds) TextDataModule) =
        Inl (ValueError ''static_masking=true is only supported for mask_words=true'')) \<and>
   (\<not> (static_masking hp \<and> \<not> mask_words hp) \<longrightarrow>
      (\<forall>e. from_pretrained (tokenizer hp) = Inl e \<longrightarrow>
         (init from_pretrained cls hp :: py_error + ('v, 'ds) TextDataModule) = Inl e) \<and>
      (\<forall>loaded. from_pretrained (tokenizer hp) = Inr loaded \<longrightarrow>
         (let tok = (case padding_side hp of
                       None \<Rightarrow> loaded
                     | Some side \<Rightarrow> loaded\<lparr>tok_padding_side := side\<rparr>);
              configured = (tokenizer hp \<in>
                 set [''krasserm/perceiver-io-mlm'', ''deepmind/language-perceiver'']);
              util = (if configured then new_PerceiverTokenizerUtil cls tok else Inr ());
              built = (if task hp = mlm \<and> \<not> static_masking hp
                       then (if mask_words hp
                             then new_WordMaskingCollator cls tok (mask_prob hp)
                             else new_TokenMaskingCollator cls tok (mask_prob hp))
                       else new_DefaultCollator cls tok (max_seq_len hp))
          in (\<forall>e. util = Inl e \<longrightarrow>
                (init from_pretrained cls hp :: py_error + ('v, 'ds) TextDataModule) = Inl e) \<and>
             (\<forall>e. util = Inr () \<longrightarrow> built = Inl e \<longrightarrow>
                (init from_pretrained cls hp :: py_error + ('v, 'ds) TextDataModule) = Inl e) \<and>
             (\<forall>coll. util = Inr () \<longrightarrow> built = Inr coll \<longrightarrow>
                (init from_pretrained cls hp :: py_error + ('v, 'ds) TextDataModule) =
                  Inr \<lparr>hparams = hp, tokenizer_of = tok,
                       perceiver_tokenizer_configured = configured,
                       collator_of = coll, ds_train = None, ds_valid = None\<rparr>))))"
proof (intro conjI impI allI)
  assume "static_masking hp \<and> \<not> mask_words hp"
  then show "(init from_pretrained cls hp :: py_error + ('v, 'ds) TextDataModule) =
        Inl (ValueError ''static_masking=true is only supported for mask_words=true'')"
    by (simp add: init_def)
next
  fix e
  assume "\<not> (static_masking hp \<and> \<not> mask_words hp)" and "from_pretrained (tokenizer hp) = Inl e"
  then show "(init from_pretrained cls hp :: py_error + ('v, 'ds) TextDataModule) = Inl e"
    by (auto simp: init_def)
next
  fix loaded
  assume ok: "\<not> (static_masking hp \<and> \<not> mask_words hp)"
    and ld: "from_pretrained (tokenizer hp) = Inr loaded"
  define tok where "tok = (case padding_side hp of
                       None \<Rightarrow> loaded
                     | Some side \<Rightarrow> loaded\<lparr>tok_padding_side := side\<rparr>)"
  define configured where "configured = (tokenizer hp \<in>
                 set [''krasserm/perceiver-io-mlm'', ''deepmind/language-perceiver''])"
  define util where
    "util = (if configured then new_PerceiverTokenizerUtil cls tok else Inr ())"
  define built where "built = (if task hp = mlm \<and> \<not> static_masking hp
                       then (if mask_words hp
                             then new_WordMaskingCollator cls tok (mask_prob hp)
                             else new_TokenMaskingCollator cls tok (mask_prob hp))
                       else new_DefaultCollator cls tok (max_seq_len hp))"
  have unfolded: "(init from_pretrained cls hp :: py_error + ('v, 'ds) TextDataModule) =
      (case util of
         Inl e \<Rightarrow> Inl e
       | Inr _ \<Rightarrow>
           (case built of
              Inl e \<Rightarrow> Inl e
            | Inr coll \<Rightarrow>
                Inr \<lparr>hparams = hp, tokenizer_of = tok,
                     perceiver_tokenizer_configured = configured,
                     collator_of = coll, ds_train = None, ds_valid = None\<rparr>))"
  proof -
    from ok have passes: "(static_masking hp \<and> \<not> mask_words hp) = False" by simp
    show ?thesis
      by (simp only: init_def passes ld Let_def tok_def configured_def util_def built_def
          if_False sum.case)
  qed
  have "(\<forall>e. util = Inl e \<longrightarrow>
                (init from_pretrained cls hp :: py_error + ('v, 'ds) TextDataModule) = Inl e) \<and>
             (\<forall>e. util = Inr () \<longrightarrow> built = Inl e \<longrightarrow>
                (init from_pretrained cls hp :: py_error + ('v, 'ds) TextDataModule) = Inl e) \<and>
             (\<forall>coll. util = Inr () \<longrightarrow> built = Inr coll \<longrightarrow>
                (init from_pretrained cls hp :: py_error + ('v, 'ds) TextDataModule) =
                  Inr \<lparr>hparams = hp, tokenizer_of = tok,
                       perceiver_tokenizer_configured = configured,
                       collator_of = coll, ds_train = None, ds_valid = None\<rparr>)"
    unfolding unfolded by simp
  then show "let tok = (case padding_side hp of
                       None \<Rightarrow> loaded
                     | Some side \<Rightarrow> loaded\<lparr>tok_padding_side := side\<rparr>);
              configured = (tokenizer hp \<in>
                 set [''krasserm/perceiver-io-mlm'', ''deepmind/language-perceiver'']);
              util = (if configured then new_PerceiverTokenizerUtil cls tok else Inr ());
              built = (if task hp = mlm \<and> \<not> static_masking hp
                       then (if mask_words hp
                             then new_WordMaskingCollator cls tok (mask_prob hp)
                             else new_TokenMaskingCollator cls tok (mask_prob hp))
                       else new_DefaultCollator cls tok (max_seq_len hp))
          in (\<forall>e. util = Inl e \<longrightarrow>
                (init from_pretrained cls hp :: py_error + ('v, 'ds) TextDataModule) = Inl e) \<and>
             (\<forall>e. util = Inr () \<longrightarrow> built = Inl e \<longrightarrow>
                (init from_pretrained cls hp :: py_error + ('v, 'ds) TextDataModule) = Inl e) \<and>
             (\<forall>coll. util = Inr () \<longrightarrow> built = Inr coll \<longrightarrow>
                (init from_pretrained cls hp :: py_error + ('v, 'ds) TextDataModule) =
                  Inr \<lparr>hparams = hp, tokenizer_of = tok,
                       perceiver_tokenizer_configured = configured,
                       collator_of = coll, ds_train = None, ds_valid = None\<rparr>)"
    unfolding Let_def tok_def configured_def util_def built_def .
qed

text \<open>
  Claim C7, as amended, on the four combinations of the two flags, with a tokenizer that
  has a mask token; the rejected combination is rejected also when neither the
  tokenizer nor any collator could be built.
\<close>

theorem init_checks_masking_flags_witness:
  "(init toy_from_pretrained toy_classes
        (toy_hparams\<lparr>tokenizer := ''toy-mask'', static_masking := True, mask_words := False\<rparr>)
      :: py_error + (string, unit) TextDataModule) =
     Inl (ValueError ''static_masking=true is only supported for mask_words=true'') \<and>
   (init (\<lambda>_. Inl (LibraryError ''offline''))
        \<lparr>new_WordMaskingCollator = (\<lambda>_ _. Inl RuntimeError),
         new_TokenMaskingCollator = (\<lambda>_ _. Inl RuntimeError),
         new_DefaultCollator = (\<lambda>_ _. Inl RuntimeError),
         new_PerceiverTokenizerUtil = (\<lambda>_. Inl RuntimeError)\<rparr>
        (toy_hparams\<lparr>static_masking := True, mask_words := False\<rparr>)
      :: py_error + (string, unit) TextDataModule) =
     Inl (ValueError ''static_masking=true is only supported for mask_words=true'') \<and>
   (init toy_from_pretrained toy_classes
        (toy_hparams\<lparr>tokenizer := ''toy-mask'', static_masking := True, mask_words := True\<rparr>)
      :: py_error + (string, unit) TextDataModule) =
     Inr \<lparr>hparams = toy_hparams\<lparr>tokenizer := ''toy-mask'', static_masking := True, mask_words := True\<rparr>,
          tokenizer_of = toy_tokenizer\<lparr>tok_mask_token := Some ''[MASK]''\<rparr>,
          perceiver_tokenizer_configured = False,
          collator_of = DefaultCollator (toy_tokenizer\<lparr>tok_mask_token := Some ''[MASK]''\<rparr>) 4,
          ds_train = None, ds_valid = None\<rparr> \<and>
   (init toy_from_pretrained toy_classes
        (toy_hparams\<lparr>tokenizer := ''toy-mask'', static_masking := False, mask_words := False\<rparr>)
      :: py_error + (string, unit) TextDataModule) =
     Inr \<lparr>hparams = toy_hparams\<lparr>tokenizer := ''toy-mask'', static_masking := False, mask_words := False\<rparr>,
          tokenizer_of = toy_tokenizer\<lparr>tok_mask_token := Some ''[MASK]''\<rparr>,
          perceiver_tokenizer_configured = False,
          collator_of = TokenMaskingCollator (toy_tokenizer\<lparr>tok_mask_token := Some ''[MASK]''\<rparr>) ''0.15'',
          ds_train = None, ds_valid = None\<rparr> \<and>
   (init toy_from_pretrained toy_classes (toy_hparams\<lparr>tokenizer := ''toy-mask''\<rparr>)
      :: py_error + (string, unit) TextDataModule) =
     Inr \<lparr>hparams = toy_hparams\<lparr>tokenizer := ''toy-mask''\<rparr>,
          tokenizer_of = toy_tokenizer\<lparr>tok_mask_token := Some ''[MASK]''\<rparr>,
          perceiver_tokenizer_configured = False,
          collator_of = WordMaskingCollator (toy_tokenizer\<lparr>tok_mask_token := Some ''[MASK]''\<rparr>) ''0.15'',
          ds_train = None, ds_valid = None\<rparr>"
proof -
  note rejected = init_checks_masking_flags
    [where hp = "toy_hparams\<lparr>tokenizer := ''toy-mask'', static_masking := True, mask_words := False\<rparr>"
       and from_pretrained = toy_from_pretrained and cls = toy_classes and ?'ds = unit]
  note rejected_offline = init_checks_masking_flags
    [where hp = "toy_hparams\<lparr>static_masking := True, mask_words := False\<rparr>"
       and from_pretrained = "\<lambda>_. Inl (LibraryError ''offline'')"
       and cls = "\<lparr>new_WordMaskingCollator = (\<lambda>_ _. Inl RuntimeError),
         new_TokenMaskingCollator = (\<lambda>_ _. Inl RuntimeError),
         new_DefaultCollator = (\<lambda>_ _. Inl RuntimeError),
         new_PerceiverTokenizerUtil = (\<lambda>_. Inl RuntimeError)\<rparr>" and ?'ds = unit]
  note static_words = init_checks_masking_flags
    [where hp = "toy_hparams\<lparr>tokenizer := ''toy-mask'', static_masking := True, mask_words := True\<rparr>"
       and from_pretrained = toy_from_pretrained and cls = toy_classes and ?'ds = unit]
  note dynamic_tokens = init_checks_masking_flags
    [where hp = "toy_hparams\<lparr>tokenizer := ''toy-mask'', static_masking := False, mask_words := False\<rparr>"
       and from_pretrained = toy_from_pretrained and cls = toy_classes and ?'ds = unit]
  note dynamic_words = init_checks_masking_flags
    [where hp = "toy_hparams\<lparr>tokenizer := ''toy-mask''\<rparr>"
       and from_pretrained = toy_from_pretrained and cls = toy_classes and ?'ds = unit]
  have a: "(init toy_from_pretrained toy_classes
        (toy_hparams\<lparr>tokenizer := ''toy-mask'', static_masking := True, mask_words := False\<rparr>)
      :: py_error + (string, unit) TextDataModule) =
     Inl (ValueError ''static_masking=true is only supported for mask_words=true'')"
    using rejected by (simp add: toy_hparams_def)
  have b: "(init (\<lambda>_. Inl (LibraryError ''offline''))
        \<lparr>new_WordMaskingCollator = (\<lambda>_ _. Inl RuntimeError),
         new_TokenMaskingCollator = (\<lambda>_ _. Inl RuntimeError),
         new_DefaultCollator = (\<lambda>_ _. Inl RuntimeError),
         new_PerceiverTokenizerUtil = (\<lambda>_. Inl RuntimeError)\<rparr>
        (toy_hparams\<lparr>static_masking := True, mask_words := False\<rparr>)
      :: py_error + (string, unit) TextDataModule) =
     Inl (ValueError ''static_masking=true is only supported for mask_words=true'')"
    using rejected_offline by (simp add: toy_hparams_def)
  have c: "(init toy_from_pretrained toy_classes
        (toy_hparams\<lparr>tokenizer := ''toy-mask'', static_masking := True, mask_words := True\<rparr>)
      :: py_error + (string, unit) TextDataModule) =
     Inr \<lparr>hparams = toy_hparams\<lparr>tokenizer := ''toy-mask'', static_masking := True, mask_words := True\<rparr>,
          tokenizer_of = toy_tokenizer\<lparr>tok_mask_token := Some ''[MASK]''\<rparr>,
          perceiver_tokenizer_configured = False,
          collator_of = DefaultCollator (toy_tokenizer\<lparr>tok_mask_token := Some ''[MASK]''\<rparr>) 4,
          ds_train = None, ds_valid = None\<rparr>"
    using static_words by (simp add: toy_hparams_def toy_from_pretrained_def toy_classes_def)
  have d: "(init toy_from_pretrained toy_classes
        (toy_hparams\<lparr>tokenizer := ''toy-mask'', static_masking := False, mask_words := False\<rparr>)
      :: py_error + (string, unit) TextDataModule) =
     Inr \<lparr>hparams = toy_hparams\<lparr>tokenizer := ''toy-mask'', static_masking := False, mask_words := False\<rparr>,
          tokenizer_of = toy_tokenizer\<lparr>tok_mask_token := Some ''[MASK]''\<rparr>,
          perceiver_tokenizer_configured = False,
          collator_of = TokenMaskingCollator (toy_tokenizer\<lparr>tok_mask_token := Some ''[MASK]''\<rparr>) ''0.15'',
          ds_train = None, ds_valid = None\<rparr>"
    using dynamic_tokens
    by (simp add: toy_hparams_def toy_from_pretrained_def toy_classes_def toy_tokenizer_def)
  have e: "(init toy_from_pretrained toy_classes (toy_hparams\<lparr>tokenizer := ''toy-mask''\<rparr>)
      :: py_error + (string, unit) TextDataModule) =
     Inr \<lparr>hparams = toy_hparams\<lparr>tokenizer := ''toy-mask''\<rparr>,
          tokenizer_of = toy_tokenizer\<lparr>tok_mask_token := Some ''[MASK]''\<rparr>,
          perceiver_tokenizer_configured = False,
          collator_of = WordMaskingCollator (toy_tokenizer\<lparr>tok_mask_token := Some ''[MASK]''\<rparr>) ''0.15'',
          ds_train = None, ds_valid = None\<rparr>"
    using dynamic_words by (simp add: toy_hparams_def toy_from_pretrained_def toy_classes_def)
  from a b c d e show ?thesis by blast
qed

text \<open>
  Claim C7 as stated fails for a combination of the two flags that the check lets
  pass: with dynamic masking of single tokens (\<open>static_masking\<close> and \<open>mask_words\<close> both
  unset, the masked-language task) and a tokenizer without a mask token, the
  constructor of the token-masking collator raises and so does \<open>__init__\<close>.
\<close>

theorem init_token_masking_counterexample:
  "\<not> (static_masking (toy_hparams\<lparr>static_masking := False, mask_words := False\<rparr>) \<and>
      \<not> mask_words (toy_hparams\<lparr>static_masking := False, mask_words := False\<rparr>)) \<and>
   toy_from_pretrained (tokenizer (toy_hparams\<lparr>static_masking := False, mask_words := False\<rparr>)) =
     Inr toy_tokenizer \<and>
   tok_mask_token toy_tokenizer = None \<and>
   (init toy_from_pretrained toy_classes (toy_hparams\<lparr>static_masking := False, mask_words := False\<rparr>)
      :: py_error + (string, unit) TextDataModule) =
     Inl (ValueError ''This tokenizer does not have a mask token'')"
  by (simp add: init_def toy_hparams_def toy_from_pretrained_def toy_classes_def toy_tokenizer_def)

text \<open>The small module is what the constructor builds from the small tokenizer.\<close>

lemma toy_module_init:
  "init toy_from_pretrained toy_classes (toy_hparams\<lparr>task := t\<rparr>) = Inr (toy_module t)"
  by (simp add: init_def toy_module_def toy_from_pretrained_def toy_hparams_def toy_classes_def)

section \<open>Properties of the text preprocessor\<close>

text \<open>
  Claim C10. \<open>preprocess(text)\<close> is row 0 of each of the two tensors that
  \<open>preprocess_batch([text])\<close> returns, and fails as the batch call fails.
\<close>

theorem preprocess_is_first_row_of_batch:
  "(\<forall>xs pad_mask. preprocess_batch self [text] = Inr (xs, pad_mask) \<longrightarrow>
       xs \<noteq> [] \<longrightarrow> pad_mask \<noteq> [] \<longrightarrow>
       preprocess self text = Inr (xs ! 0, pad_mask ! 0)) \<and>
   (\<forall>e. preprocess_batch self [text] = Inl e \<longrightarrow> preprocess self text = Inl e)"
  by (auto simp: preprocess_def row0_def split: list.splits)

text \<open>
  Claim C10 on a text of six characters, truncated to four tokens.
\<close>

theorem preprocess_is_first_row_of_batch_witness:
  "preprocess_batch toy_preprocessor [''abcdef''] =
     Inr ([[97, 98, 99, 100]], [[False, False, False, False]]) \<and>
   preprocess toy_preprocessor ''abcdef'' = Inr ([97, 98, 99, 100], [False, False, False, False])"
proof -
  have b: "preprocess_batch toy_preprocessor [''abcdef''] =
     Inr ([[97, 98, 99, 100]], [[False, False, False, False]])"
    by (simp add: preprocess_batch_def toy_preprocessor_def toy_tokenizer_def toy_encode_def)
  show ?thesis
    using b preprocess_is_first_row_of_batch [of toy_preprocessor "''abcdef''"] by simp
qed

section \<open>Properties of the random-shift wrapper\<close>

lemma slice_from_nat: "slice_from t (int s) = drop s t"
  by (simp add: slice_from_def slice_bound_def min_def)

lemma slice_upto_nat: "slice_upto t (int s) = take s t"
  by (simp add: slice_upto_def slice_bound_def min_def)

lemma slice_upto_minus_one: "slice_upto t (- 1) = butlast t"
  by (cases t rule: rev_cases) (simp_all add: slice_upto_def slice_bound_def)

lemma slice_from_one: "slice_from t 1 = tl t"
  by (cases t) (simp_all add: slice_from_def slice_bound_def)

lemma shift_fields_known:
  assumes "\<forall>k \<in> set keys. k \<in> dom (map_of e1) \<and> k \<in> dom (map_of e2)"
  shows "shift_fields randint e1 e2 keys (Some s) acc g =
           (Inr (fold (\<lambda>k. AList.update k (shifted s e1 e2 k)) keys acc), g)"
  using assms
proof (induction keys arbitrary: acc)
  case Nil
  show ?case by simp
next
  case (Cons k keys)
  from Cons.prems obtain r1 r2 where r: "map_of e1 k = Some r1" "map_of e2 k = Some r2"
    by auto
  from Cons.prems have rest: "\<forall>k \<in> set keys. k \<in> dom (map_of e1) \<and> k \<in> dom (map_of e2)"
    by simp
  show ?case
    using r Cons.IH [OF rest] by (simp add: slice_from_nat slice_upto_nat shifted_def)
qed

lemma map_of_fold_update:
  "map_of (fold (\<lambda>k. AList.update k (f k)) keys acc) k =
     (if k \<in> set keys then Some (f k) else map_of acc k)"
  by (induction keys arbitrary: acc) (auto simp: update_conv')

lemma keys_fold_update:
  "distinct (map fst acc @ keys) \<Longrightarrow>
   map fst (fold (\<lambda>k. AList.update k (f k)) keys acc) = map fst acc @ keys"
proof (induction keys arbitrary: acc)
  case Nil
  show ?case by simp
next
  case (Cons k keys)
  from Cons.prems have fresh: "k \<notin> set (map fst acc)" by auto
  then have step: "map fst (AList.update k (f k) acc) = map fst acc @ [k]"
    by (simp add: update_keys)
  from Cons.prems have "distinct (map fst (AList.update k (f k) acc) @ keys)"
    unfolding step by auto
  from Cons.IH [OF this] show ?case by (simp add: step)
qed

text \<open>
  Claim C4. The logical length is the underlying length minus one. Fetching index
  \<open>idx\<close>, where the underlying examples \<open>idx\<close> and \<open>idx + 1\<close> exist, have the same fields and
  the first field of the first one is not empty, draws exactly one offset, with
  \<open>randint\<close> bounded by the length of that first field, and returns for every field
  \<open>example_1[field][shift:] + example_2[field][:shift]\<close> with that one offset. That the
  draw is uniform on \<open>[0, n)\<close> is \<open>torch.randint\<close>'s contract; of it, the range is assumed.
\<close>

theorem random_shift_getitem:
  assumes contract: "\<And>n g. 0 < n \<Longrightarrow> \<exists>s g'. randint n g = (Inr s, g') \<and> s < n"
    and first: "dataset idx g = (Inr example_1, g1)"
    and second: "dataset (idx + 1) g1 = (Inr example_2, g2)"
    and fields: "example_1 = (k0, record_0) # rest"
    and nonempty: "record_0 \<noteq> []"
    and dict: "distinct (map fst example_1)"
    and same_fields: "fst ` set example_1 \<subseteq> fst ` set example_2"
  shows "RandomShiftDataset_len dataset_len = dataset_len - 1 \<and>
     (\<exists>shift g3 result.
        randint (length record_0) g2 = (Inr shift, g3) \<and> shift < length record_0 \<and>
        RandomShiftDataset_getitem randint dataset idx g = (Inr result, g3) \<and>
        map fst result = map fst example_1 \<and>
        (\<forall>key record_1 record_2.
           map_of example_1 key = Some record_1 \<longrightarrow> map_of example_2 key = Some record_2 \<longrightarrow>
           map_of result key = Some (drop shift record_1 @ take shift record_2)))"
proof -
  from nonempty have "0 < length record_0" by simp
  from contract [OF this, of g2] obtain shift g3
    where draw: "randint (length record_0) g2 = (Inr shift, g3)" and range: "shift < length record_0"
    by blast
  define keys where "keys = map fst rest"
  define result where
    "result = fold (\<lambda>k. AList.update k (shifted shift example_1 example_2 k)) (k0 # keys) []"
  have all_keys: "map fst example_1 = k0 # keys" by (simp add: fields keys_def)
  have present: "\<forall>k \<in> set (k0 # keys). k \<in> dom (map_of example_1) \<and> k \<in> dom (map_of example_2)"
  proof
    fix k assume "k \<in> set (k0 # keys)"
    then have in1: "k \<in> fst ` set example_1" using all_keys by (metis set_map)
    with same_fields have in2: "k \<in> fst ` set example_2" by blast
    from in1 in2 show "k \<in> dom (map_of example_1) \<and> k \<in> dom (map_of example_2)"
      by (simp add: dom_map_of_conv_image_fst)
  qed
  then obtain r2 where r2: "map_of example_2 k0 = Some r2" by auto
  have r1: "map_of example_1 k0 = Some record_0" by (simp add: fields)
  from present have rest_present:
    "\<forall>k \<in> set keys. k \<in> dom (map_of example_1) \<and> k \<in> dom (map_of example_2)" by simp
  have loop: "shift_fields randint example_1 example_2 (k0 # keys) None [] g2 = (Inr result, g3)"
    using r1 r2 draw shift_fields_known [OF rest_present, of randint shift _ g3]
    by (simp add: result_def slice_from_nat slice_upto_nat shifted_def)
  have run: "RandomShiftDataset_getitem randint dataset idx g = (Inr result, g3)"
    using first second loop by (simp add: RandomShiftDataset_getitem_def all_keys)
  have names: "map fst result = map fst example_1"
    using keys_fold_update [of "[]" "k0 # keys"] dict all_keys by (simp add: result_def)
  have looked_up: "map_of result key = Some (drop shift record_1 @ take shift record_2)"
    if "map_of example_1 key = Some record_1" "map_of example_2 key = Some record_2"
    for key record_1 record_2
  proof -
    from that(1) have "key \<in> dom (map_of example_1)" by blast
    then have "key \<in> fst ` set example_1" by (simp add: dom_map_of_conv_image_fst)
    then have "key \<in> set (k0 # keys)" using all_keys by (metis set_map)
    then show ?thesis
      unfolding result_def map_of_fold_update using that by (simp add: shifted_def)
  qed
  show ?thesis
    using draw range run names looked_up by (simp add: RandomShiftDataset_len_def)
qed

text \<open>
  Claim C4 on three examples with aligned \<open>input_ids\<close> and \<open>word_ids\<close>: index 1 with the
  offset 2 drawn.
\<close>

theorem random_shift_getitem_witness:
  "RandomShiftDataset_len 3 = 2 \<and>
   RandomShiftDataset_getitem toy_randint (list_getitem toy_rows) 1 6 =
     (Inr [(''input_ids'', [17, 18, 19, 20]), (''word_ids'', [3, 4, 5, 5])], 7)"
proof -
  have contract: "\<And>n g. 0 < n \<Longrightarrow> \<exists>s g'. toy_randint n g = (Inr s, g') \<and> s < n"
    by (simp add: toy_randint_def)
  have first: "list_getitem toy_rows 1 (6::nat) =
      (Inr [(''input_ids'', [15, 16, 17, 18]), (''word_ids'', [2, 3, 3, 4])], 6)"
    by (simp add: list_getitem_def py_index_def toy_rows_def)
  have second: "list_getitem toy_rows (1 + 1) (6::nat) =
      (Inr [(''input_ids'', [19, 20, 21, 22]), (''word_ids'', [5, 5, 5, 6])], 6)"
    by (simp add: list_getitem_def py_index_def toy_rows_def)
  have fields: "[(''input_ids'', [15, 16, 17, 18]), (''word_ids'', [2, 3, 3, 4::int])] =
      (''input_ids'', [15, 16, 17, 18]) # [(''word_ids'', [2, 3, 3, 4])]"
    by simp
  have nonempty: "[15, 16, 17, 18::int] \<noteq> []" by simp
  have dict: "distinct (map fst [(''input_ids'', [15, 16, 17, 18]), (''word_ids'', [2, 3, 3, 4::int])])"
    by simp
  have same_fields:
    "fst ` set [(''input_ids'', [15, 16, 17, 18]), (''word_ids'', [2, 3, 3, 4::int])]
       \<subseteq> fst ` set [(''input_ids'', [19, 20, 21, 22]), (''word_ids'', [5, 5, 5, 6::int])]"
    by simp
  from random_shift_getitem [where randint = toy_randint and dataset = "list_getitem toy_rows"
      and idx = 1 and g = 6 and ?g1.0 = 6 and ?g2.0 = 6 and dataset_len = 3,
      OF contract first second fields nonempty dict same_fields]
  obtain shift g3 result where
    len: "RandomShiftDataset_len 3 = 3 - 1" and
    draw: "toy_randint (length [15, 16, 17, 18::int]) 6 = (Inr shift, g3)" and
    run: "RandomShiftDataset_getitem toy_randint (list_getitem toy_rows) 1 6 = (Inr result, g3)" and
    names: "map fst result =
      map fst [(''input_ids'', [15, 16, 17, 18]), (''word_ids'', [2, 3, 3, 4::int])]" and
    vals: "\<forall>key record_1 record_2.
      map_of [(''input_ids'', [15, 16, 17, 18]), (''word_ids'', [2, 3, 3, 4::int])] key = Some record_1 \<longrightarrow>
      map_of [(''input_ids'', [19, 20, 21, 22]), (''word_ids'', [5, 5, 5, 6::int])] key = Some record_2 \<longrightarrow>
      map_of result key = Some (drop shift record_1 @ take shift record_2)"
    by blast
  from draw have s: "shift = 2" and g: "g3 = 7" by (simp_all add: toy_randint_def)
  from vals have a: "map_of result ''input_ids'' = Some [17, 18, 19, 20]"
    and b: "map_of result ''word_ids'' = Some [3, 4, 5, 5]"
    by (simp_all add: s)
  from names obtain x y where shape: "result = [(''input_ids'', x), (''word_ids'', y)]"
    by (auto simp: map_eq_Cons_conv)
  from a b have "result = [(''input_ids'', [17, 18, 19, 20]), (''word_ids'', [3, 4, 5, 5])]"
    by (simp add: shape)
  with len run g show ?thesis by simp
qed

section \<open>Properties of the split\<close>

text \<open>
  Claim C6. \<open>_train_valid_split\<close> asks the dataset engine for a shuffled split exactly
  when neither \<open>random_train_shift\<close> nor \<open>random_valid_shift\<close> is set; when either is
  set it asks for an unshuffled split, which keeps the order of the examples.
\<close>

theorem train_valid_split_shuffles_unless_shift:
  "(\<not> random_train_shift hp \<and> \<not> random_valid_shift hp \<longrightarrow>
      (\<forall>split train test.
         train_test_split dataset train_size test_size True = Inr split \<longrightarrow>
         map_of split ''train'' = Some train \<longrightarrow> map_of split ''test'' = Some test \<longrightarrow>
         train_valid_split train_test_split hp dataset train_size test_size =
           Inr [(''train'', train), (''valid'', test)])) \<and>
   (random_train_shift hp \<or> random_valid_shift hp \<longrightarrow>
      (\<forall>split train test.
         train_test_split dataset train_size test_size False = Inr split \<longrightarrow>
         map_of split ''train'' = Some train \<longrightarrow> map_of split ''test'' = Some test \<longrightarrow>
         train_valid_split train_test_split hp dataset train_size test_size =
           Inr [(''train'', train), (''valid'', test)]))"
  by (simp add: train_valid_split_def random_shift_def)

text \<open>
  Claim C6 on five rows: the default configuration gets the shuffled split, either
  shift option gets the rows in their original order.
\<close>

theorem train_valid_split_shuffles_unless_shift_witness:
  "train_valid_split toy_train_test_split toy_hparams [1, 2, 3, 4, 5::nat] 3 2 =
     Inr [(''train'', [5, 4, 3]), (''valid'', [2, 1])] \<and>
   train_valid_split toy_train_test_split (toy_hparams\<lparr>random_valid_shift := True\<rparr>)
       [1, 2, 3, 4, 5::nat] 3 2 =
     Inr [(''train'', [1, 2, 3]), (''valid'', [4, 5])] \<and>
   train_valid_split toy_train_test_split (toy_hparams\<lparr>random_train_shift := True\<rparr>)
       [1, 2, 3, 4, 5::nat] 3 2 =
     Inr [(''train'', [1, 2, 3]), (''valid'', [4, 5])]"
  using
    train_valid_split_shuffles_unless_shift
      [of toy_hparams toy_train_test_split "[1, 2, 3, 4, 5::nat]" 3 2]
    train_valid_split_shuffles_unless_shift
      [of "toy_hparams\<lparr>random_valid_shift := True\<rparr>" toy_train_test_split "[1, 2, 3, 4, 5::nat]" 3 2]
    train_valid_split_shuffles_unless_shift
      [of "toy_hparams\<lparr>random_train_shift := True\<rparr>" toy_train_test_split "[1, 2, 3, 4, 5::nat]" 3 2]
  by (simp add: toy_hparams_def toy_train_test_split_def)

section \<open>Properties of the CLM wrapper and the CLM pipeline\<close>

lemma chunk_single_column:
  assumes "0 < chunk_size"
  shows "chunk chunk_size [k] [batch] =
     Inr [(k, if chunk_size \<le> int (length (concat batch)) \<or> concat batch = []
              then map (\<lambda>j. take (nat chunk_size) (drop (j * nat chunk_size) (concat batch)))
                     [0..<length (concat batch) div nat chunk_size]
              else [take (nat chunk_size) (concat batch)])]"
proof -
  have chain: "chain_columns (k # []) [batch] [] = Inr [(k, concat batch)]" by simp
  have look: "map_of [(k, concat batch)] k = Some (concat batch)" by simp
  from assms have nz: "chunk_size \<noteq> 0" by simp
  from chunk_unfold [OF nz chain look] obtain cs where shape: "chunk chunk_size [k] [batch] = Inr [(k, cs)]"
    by simp
  from chunk_field [OF assms chain look look] shape show ?thesis by simp
qed

text \<open>
  Claim C3, as amended. For \<open>max_seq_len \<ge> 0\<close> and an underlying example whose
  \<open>input_ids\<close> has length \<open>max_seq_len + 1\<close>, \<open>CLMDataset.__getitem__\<close> returns \<open>input_ids\<close>
  and \<open>label_ids\<close> of length \<open>max_seq_len\<close> with \<open>label_ids[k]\<close> equal to element \<open>k + 1\<close> of
  the example (and of the returned \<open>input_ids\<close>, where that exists). The CLM branch of
  \<open>_prepare_dataset\<close> tokenizes without word ids and then maps \<open>chunk\<close> with
  \<open>chunk_size = max_seq_len + 1\<close> over the \<open>input_ids\<close> column only. Every chunk cut from a
  batch that holds at least \<open>max_seq_len + 1\<close> tokens has length \<open>max_seq_len + 1\<close>.
\<close>

theorem clm_shift_and_pipeline:
  "(\<forall>example g' record.
      dataset idx g = (Inr example, g') \<longrightarrow> map_of example ''input_ids'' = Some record \<longrightarrow>
      0 \<le> msl \<longrightarrow> int (length record) = msl + 1 \<longrightarrow>
      (\<exists>input_ids label_ids.
         CLMDataset_getitem dataset idx g =
           (Inr [(''input_ids'', input_ids), (''label_ids'', label_ids)], g') \<and>
         int (length input_ids) = msl \<and> int (length label_ids) = msl \<and>
         (\<forall>k < length label_ids. label_ids ! k = record ! (k + 1) \<and> input_ids ! k = record ! k) \<and>
         (\<forall>k. k + 1 < length input_ids \<longrightarrow> label_ids ! k = input_ids ! (k + 1)))) \<and>
   (task (hparams self) = clm \<longrightarrow>
      prepare_dataset self lib source w =
        (case tokenize_dataset self lib source False False None False w of
           (Inl e, w1) \<Rightarrow> (Inl e, w1)
         | (Inr tokenized, w1) \<Rightarrow>
             map_splits
               (ds_map lib (OnColumns (chunk (max_seq_len (hparams self) + 1) [''input_ids'']))
                  \<lparr>mk_batched = True,
                   mk_batch_size = Some (preproc_batch_size (hparams self)),
                   mk_num_proc = preproc_workers_of (hparams self),
                   mk_input_columns = Some [''input_ids''],
                   mk_remove_columns = Some [],
                   mk_load_from_cache_file = False,
                   mk_desc = ''Split dataset into chunks of size '' @
                             str_int (max_seq_len (hparams self) + 1)\<rparr>)
               \<lparr>mk_batched = True,
                mk_batch_size = Some (preproc_batch_size (hparams self)),
                mk_num_proc = preproc_workers_of (hparams self),
                mk_input_columns = Some [''input_ids''],
                mk_remove_columns = Some [],
                mk_load_from_cache_file = False,
                mk_desc = ''Split dataset into chunks of size '' @
                          str_int (max_seq_len (hparams self) + 1)\<rparr>
               tokenized [] w1)) \<and>
   (0 \<le> msl \<longrightarrow> msl + 1 \<le> int (length (concat batch)) \<longrightarrow>
      (\<exists>cs. chunk (msl + 1) [''input_ids''] [batch] = Inr [(''input_ids'', cs)] \<and>
         int (length cs) = int (length (concat batch)) div (msl + 1) \<and>
         (\<forall>c \<in> set cs. int (length c) = msl + 1)))"
proof (intro conjI allI impI)
  fix example g' and ids :: "'a list"
  assume fetch: "dataset idx g = (Inr example, g')"
    and field: "map_of example ''input_ids'' = Some ids"
    and nonneg: "0 \<le> msl"
    and len: "int (length ids) = msl + 1"
  have run: "CLMDataset_getitem dataset idx g =
      (Inr [(''input_ids'', butlast ids), (''label_ids'', tl ids)], g')"
    using fetch field
    by (simp add: CLMDataset_getitem_def slice_upto_minus_one slice_from_one)
  from len have "nat (int (length ids)) = nat (msl + 1)" by simp
  then have n: "length ids = Suc (nat msl)" using nonneg by (simp add: nat_add_distrib)
  have l1: "int (length (butlast ids)) = msl" and l2: "int (length (tl ids)) = msl"
    using nonneg by (simp_all add: n)
  have p1: "\<forall>k < length (tl ids). tl ids ! k = ids ! (k + 1) \<and> butlast ids ! k = ids ! k"
    by (simp add: nth_tl nth_butlast)
  have p2: "\<forall>k. k + 1 < length (butlast ids) \<longrightarrow> tl ids ! k = butlast ids ! (k + 1)"
    by (simp add: nth_tl nth_butlast)
  show "\<exists>input_ids label_ids.
         CLMDataset_getitem dataset idx g =
           (Inr [(''input_ids'', input_ids), (''label_ids'', label_ids)], g') \<and>
         int (length input_ids) = msl \<and> int (length label_ids) = msl \<and>
         (\<forall>k < length label_ids. label_ids ! k = ids ! (k + 1) \<and> input_ids ! k = ids ! k) \<and>
         (\<forall>k. k + 1 < length input_ids \<longrightarrow> label_ids ! k = input_ids ! (k + 1))"
    using run l1 l2 p1 p2 by blast
next
  assume "task (hparams self) = clm"
  then show "prepare_dataset self lib source w =
        (case tokenize_dataset self lib source False False None False w of
           (Inl e, w1) \<Rightarrow> (Inl e, w1)
         | (Inr tokenized, w1) \<Rightarrow>
             map_splits
               (ds_map lib (OnColumns (chunk (max_seq_len (hparams self) + 1) [''input_ids'']))
                  \<lparr>mk_batched = True,
                   mk_batch_size = Some (preproc_batch_size (hparams self)),
                   mk_num_proc = preproc_workers_of (hparams self),
                   mk_input_columns = Some [''input_ids''],
                   mk_remove_columns = Some [],
                   mk_load_from_cache_file = False,
                   mk_desc = ''Split dataset into chunks of size '' @
                             str_int (max_seq_len (hparams self) + 1)\<rparr>)
               \<lparr>mk_batched = True,
                mk_batch_size = Some (preproc_batch_size (hparams self)),
                mk_num_proc = preproc_workers_of (hparams self),
                mk_input_columns = Some [''input_ids''],
                mk_remove_columns = Some [],
                mk_load_from_cache_file = False,
                mk_desc = ''Split dataset into chunks of size '' @
                          str_int (max_seq_len (hparams self) + 1)\<rparr>
               tokenized [] w1)"
    by (simp add: prepare_dataset_def chunk_dataset_def Let_def split: prod.split sum.split)
next
  assume nonneg: "0 \<le> msl" and enough: "msl + 1 \<le> int (length (concat batch))"
  define c where "c = nat (msl + 1)"
  define m where "m = length (concat batch) div c"
  from nonneg have pos: "0 < msl + 1" by simp
  have C: "msl + 1 = int c" using nonneg by (simp add: c_def)
  have run: "chunk (msl + 1) [''input_ids''] [batch] =
      Inr [(''input_ids'', map (\<lambda>j. take c (drop (j * c) (concat batch))) [0..<m])]"
    using chunk_single_column [OF pos, of "''input_ids''" batch] enough by (simp add: c_def m_def)
  have fit: "m * c \<le> length (concat batch)" by (simp add: m_def)
  have count: "int (length (concat batch)) div (msl + 1) = int m"
    unfolding C by (simp add: m_def zdiv_int)
  have cnt: "int (length (map (\<lambda>j. take c (drop (j * c) (concat batch))) [0..<m])) =
      int (length (concat batch)) div (msl + 1)"
    unfolding count by simp
  have each: "\<forall>x \<in> set (map (\<lambda>j. take c (drop (j * c) (concat batch))) [0..<m]). int (length x) = msl + 1"
    unfolding C using length_window [OF _ fit] by auto
  show "\<exists>cs. chunk (msl + 1) [''input_ids''] [batch] = Inr [(''input_ids'', cs)] \<and>
         int (length cs) = int (length (concat batch)) div (msl + 1) \<and>
         (\<forall>c \<in> set cs. int (length c) = msl + 1)"
    using run cnt each by blast
qed

text \<open>
  Claim C3, as amended, with \<open>max_seq_len = 4\<close>: an example of five tokens, the pipeline
  on texts of eleven and five characters, and a batch of eleven tokens.
\<close>

theorem clm_shift_and_pipeline_witness:
  "CLMDataset_getitem (list_getitem [[(''input_ids'', [11, 12, 13, 14, 15::int])]]) 0 () =
     (Inr [(''input_ids'', [11, 12, 13, 14]), (''label_ids'', [12, 13, 14, 15])], ()) \<and>
   task (hparams (toy_module clm)) = clm \<and>
   fst (prepare_dataset (toy_module clm) toy_lib
          [(''train'', [(''text'', [Text ''abcdef'', Text ''ghijk''])]),
           (''valid'', [(''text'', [Text ''lmnop''])])] empty_world) =
     Inr [(''train'', [(''input_ids'', [Seq [Some 97, Some 98, Some 99, Some 100, Some 101],
                                         Seq [Some 102, Some 103, Some 104, Some 105, Some 106]])]),
          (''valid'', [(''input_ids'', [Seq [Some 108, Some 109, Some 110, Some 111, Some 112]])])] \<and>
   chunk (4 + 1) [''input_ids''] [[[11, 12, 13], [14, 15, 16, 17, 18, 19, 20, 21::int]]] =
     Inr [(''input_ids'', [[11, 12, 13, 14, 15], [16, 17, 18, 19, 20]])]"
proof -
  have fetch: "list_getitem [[(''input_ids'', [11, 12, 13, 14, 15::int])]] 0 () =
      (Inr [(''input_ids'', [11, 12, 13, 14, 15])], ())"
    by (simp add: list_getitem_def py_index_def)
  have look: "map_of [(''input_ids'', [11, 12, 13, 14, 15::int])] ''input_ids'' =
      Some [11, 12, 13, 14, 15]"
    by simp
  have len: "int (length [11, 12, 13, 14, 15::int]) = 4 + 1" by simp
  have t: "task (hparams (toy_module clm)) = clm"
    by (simp add: toy_module_def)
  have nonneg: "0 \<le> (4::int)" by simp
  have enough: "4 + 1 \<le> int (length (concat [[11, 12, 13], [14, 15, 16, 17, 18, 19, 20, 21::int]]))"
    by simp
  note inst = clm_shift_and_pipeline
    [where dataset = "list_getitem [[(''input_ids'', [11, 12, 13, 14, 15::int])]]"
       and idx = 0 and g = "()" and msl = 4 and self = "toy_module clm" and lib = toy_lib
       and source = "[(''train'', [(''text'', [Text ''abcdef'', Text ''ghijk''])]),
                      (''valid'', [(''text'', [Text ''lmnop''])])]"
       and w = empty_world
       and batch = "[[11, 12, 13], [14, 15, 16, 17, 18, 19, 20, 21::int]]"]
  note part1 = inst [THEN conjunct1, rule_format, OF fetch look nonneg len]
  note part3 = inst [THEN conjunct2, THEN conjunct2, rule_format, OF nonneg enough]
  from part1 obtain xs ys where
    run: "CLMDataset_getitem (list_getitem [[(''input_ids'', [11, 12, 13, 14, 15::int])]]) 0 () =
         (Inr [(''input_ids'', xs), (''label_ids'', ys)], ())"
    and lx: "int (length xs) = 4" and ly: "int (length ys) = 4"
    and pt: "\<forall>k < length ys. ys ! k = [11, 12, 13, 14, 15] ! (k + 1) \<and> xs ! k = [11, 12, 13, 14, 15] ! k"
    by blast
  from lx ly have lx': "length xs = 4" and ly': "length ys = 4" by simp_all
  from lx' obtain x0 x1 x2 x3 where xs: "xs = [x0, x1, x2, x3]"
    by (auto simp: numeral_eq_Suc length_Suc_conv)
  from ly' obtain y0 y1 y2 y3 where ys: "ys = [y0, y1, y2, y3]"
    by (auto simp: numeral_eq_Suc length_Suc_conv)
  have "ys ! 0 = 12 \<and> xs ! 0 = 11" using pt [rule_format, of 0] ly' by simp
  moreover have "ys ! 1 = 13 \<and> xs ! 1 = 12" using pt [rule_format, of 1] ly' by simp
  moreover have "ys ! 2 = 14 \<and> xs ! 2 = 13" using pt [rule_format, of 2] ly' by simp
  moreover have "ys ! 3 = 15 \<and> xs ! 3 = 14" using pt [rule_format, of 3] ly' by simp
  ultimately have "xs = [11, 12, 13, 14] \<and> ys = [12, 13, 14, 15]"
    unfolding xs ys by simp
  with run have a: "CLMDataset_getitem (list_getitem [[(''input_ids'', [11, 12, 13, 14, 15::int])]]) 0 () =
     (Inr [(''input_ids'', [11, 12, 13, 14]), (''label_ids'', [12, 13, 14, 15])], ())"
    by simp
  have b: "fst (prepare_dataset (toy_module clm) toy_lib
          [(''train'', [(''text'', [Text ''abcdef'', Text ''ghijk''])]),
           (''valid'', [(''text'', [Text ''lmnop''])])] empty_world) =
     Inr [(''train'', [(''input_ids'', [Seq [Some 97, Some 98, Some 99, Some 100, Some 101],
                                         Seq [Some 102, Some 103, Some 104, Some 105, Some 106]])]),
          (''valid'', [(''input_ids'', [Seq [Some 108, Some 109, Some 110, Some 111, Some 112]])])]"
    by (simp add: prepare_dataset_def tokenize_dataset_def chunk_dataset_def tokenize_def
      toy_module_def toy_hparams_def toy_lib_def empty_world_def toy_map_def
      toy_tokenizer_def toy_encode_def toy_put_columns_def preproc_workers_of_def
      chunk_def py_range.simps py_slice_def slice_bound_def Let_def)
  have c: "chunk (4 + 1) [''input_ids''] [[[11, 12, 13], [14, 15, 16, 17, 18, 19, 20, 21::int]]] =
     Inr [(''input_ids'', [[11, 12, 13, 14, 15], [16, 17, 18, 19, 20]])]"
    by (simp add: chunk_def py_range.simps py_slice_def slice_bound_def)
  show ?thesis using a b c t by simp
qed

text \<open>
  Claim C3 as stated fails where a batch is shorter than the chunk size: with
  \<open>max_seq_len = 4\<close> and one text of three tokens in the split, the CLM pipeline emits an
  example of length 3, not 5, and \<open>CLMDataset.__getitem__\<close> returns sequences of length 2,
  not 4.
\<close>

theorem clm_pipeline_counterexample:
  "max_seq_len (hparams (toy_module clm)) = 4 \<and>
   fst (prepare_dataset (toy_module clm) toy_lib toy_source empty_world) =
     Inr [(''train'', [(''input_ids'', [Seq [Some 97, Some 98, Some 99]])]),
          (''valid'', [(''input_ids'', [Seq [Some 100, Some 101]])])] \<and>
   int (length [Some 97, Some 98, Some (99::int)]) \<noteq> 4 + 1 \<and>
   CLMDataset_getitem (list_getitem [[(''input_ids'', [Some 97, Some 98, Some (99::int)])]]) 0 () =
     (Inr [(''input_ids'', [Some 97, Some 98]), (''label_ids'', [Some 98, Some 99])], ()) \<and>
   int (length [Some 97, Some (98::int)]) \<noteq> 4"
  by (simp add: prepare_dataset_def tokenize_dataset_def chunk_dataset_def tokenize_def
      toy_module_def toy_hparams_def toy_lib_def toy_source_def empty_world_def toy_map_def
      toy_tokenizer_def toy_encode_def toy_put_columns_def preproc_workers_of_def
      chunk_def py_range.simps py_slice_def slice_bound_def Let_def
      CLMDataset_getitem_def list_getitem_def py_index_def slice_upto_def slice_from_def)

section \<open>Properties of the classification branch\<close>

text \<open>
  Claim C8. For the classification task, when the \<open>train\<close> or the \<open>valid\<close> split of the
  source dataset has no \<open>label\<close> column, \<open>_prepare_dataset\<close> fails with \<open>AssertionError\<close> and
  the world is as before: no call to the dataset engine, hence no tokenization, was made.
\<close>

theorem clf_asserts_label_before_work:
  assumes "task (hparams self) = clf"
    and "map_of source ''train'' = Some train"
    and "map_of source ''valid'' = Some valid"
    and "''label'' \<notin> set (ds_column_names lib train) \<or> ''label'' \<notin> set (ds_column_names lib valid)"
  shows "prepare_dataset self lib source w = (Inl AssertionError, w)"
  using assms by (auto simp: prepare_dataset_def)

text \<open>
  Claim C8 on a source dataset whose \<open>valid\<close> split has no label; with labels in both
  splits the dataset engine is called.
\<close>

theorem clf_asserts_label_before_work_witness:
  "prepare_dataset (toy_module clf) toy_lib
     [(''train'', [(''text'', [Text ''abc'']), (''label'', [Label 1])]),
      (''valid'', [(''text'', [Text ''de''])])] empty_world =
     (Inl AssertionError, empty_world) \<and>
   calls (snd (prepare_dataset (toy_module clf) toy_lib
     [(''train'', [(''text'', [Text ''abc'']), (''label'', [Label 1])]),
      (''valid'', [(''text'', [Text ''de'']), (''label'', [Label 0])])] empty_world)) \<noteq> []"
proof -
  have t: "task (hparams (toy_module clf)) = clf" by (simp add: toy_module_def)
  have tr: "map_of [(''train'', [(''text'', [Text ''abc'']), (''label'', [Label 1])]),
      (''valid'', [(''text'', [Text ''de''])])] ''train'' =
      Some [(''text'', [Text ''abc'']), (''label'', [Label 1])]" by simp
  have va: "map_of [(''train'', [(''text'', [Text ''abc'']), (''label'', [Label 1])]),
      (''valid'', [(''text'', [Text ''de''])])] ''valid'' = Some [(''text'', [Text ''de''])]" by simp
  have missing: "''label'' \<notin> set (ds_column_names toy_lib [(''text'', [Text ''abc'']), (''label'', [Label 1])])
     \<or> ''label'' \<notin> set (ds_column_names toy_lib [(''text'', [Text ''de''])])"
    by (simp add: toy_lib_def)
  have other: "calls (snd (prepare_dataset (toy_module clf) toy_lib
     [(''train'', [(''text'', [Text ''abc'']), (''label'', [Label 1])]),
      (''valid'', [(''text'', [Text ''de'']), (''label'', [Label 0])])] empty_world)) \<noteq> []"
    by (simp add: prepare_dataset_def tokenize_dataset_def tokenize_def
      toy_module_def toy_hparams_def toy_lib_def empty_world_def toy_map_def
      toy_tokenizer_def toy_encode_def toy_put_columns_def preproc_workers_of_def Let_def)
  show ?thesis
    using clf_asserts_label_before_work [OF t tr va missing, of empty_world] other by simp
qed

section \<open>Properties of the cache\<close>

lemma map_splits_world:
  "map_splits f kwargs splits result w = (r, w') \<Longrightarrow>
   disk w' = disk w \<and> (\<exists>evs. calls w' = calls w @ evs \<and> list_all is_dataset_map evs)"
proof (induction splits arbitrary: result w)
  case Nil
  then show ?case by simp
next
  case (Cons kd rest)
  obtain key d where kd: "kd = (key, d)" by (cases kd)
  define w1 where "w1 = w\<lparr>calls := calls w @ [DatasetMap key kwargs]\<rparr>"
  show ?case
  proof (cases "f d")
    case (Inl e)
    with Cons.prems have "w' = w1" by (simp add: kd w1_def Let_def)
    then show ?thesis by (simp add: w1_def)
  next
    case (Inr d')
    with Cons.prems have "map_splits f kwargs rest (AList.update key d' result) w1 = (r, w')"
      by (simp add: kd w1_def Let_def)
    from Cons.IH [OF this] obtain evs where
      "disk w' = disk w1" "calls w' = calls w1 @ evs" "list_all is_dataset_map evs"
      by blast
    then have "disk w' = disk w \<and> calls w' = calls w @ (DatasetMap key kwargs # evs) \<and>
        list_all is_dataset_map (DatasetMap key kwargs # evs)"
      by (simp add: w1_def)
    then show ?thesis by blast
  qed
qed

lemma stage_world_trans:
  assumes "disk w1 = disk w \<and> (\<exists>evs. calls w1 = calls w @ evs \<and> list_all is_dataset_map evs)"
    and "disk w2 = disk w1 \<and> (\<exists>evs. calls w2 = calls w1 @ evs \<and> list_all is_dataset_map evs)"
  shows "disk w2 = disk w \<and> (\<exists>evs. calls w2 = calls w @ evs \<and> list_all is_dataset_map evs)"
proof -
  from assms obtain e1 e2 where "calls w1 = calls w @ e1" "list_all is_dataset_map e1"
    "calls w2 = calls w1 @ e2" "list_all is_dataset_map e2"
    by blast
  then have "calls w2 = calls w @ (e1 @ e2) \<and> list_all is_dataset_map (e1 @ e2)" by simp
  with assms show ?thesis by metis
qed

lemma stage_world_refl:
  "disk w = disk w \<and> (\<exists>evs. calls w = calls w @ evs \<and> list_all is_dataset_map evs)"
  by (simp add: exI [of _ "[]"])

lemma tokenize_dataset_world:
  "tokenize_dataset self lib source p t m r w = (res, w') \<Longrightarrow>
   disk w' = disk w \<and> (\<exists>evs. calls w' = calls w @ evs \<and> list_all is_dataset_map evs)"
  unfolding tokenize_dataset_def Let_def by (rule map_splits_world)

lemma chunk_dataset_world:
  "chunk_dataset self lib source c ks rs w = (res, w') \<Longrightarrow>
   disk w' = disk w \<and> (\<exists>evs. calls w' = calls w @ evs \<and> list_all is_dataset_map evs)"
  unfolding chunk_dataset_def Let_def by (rule map_splits_world)

lemma mask_dataset_world:
  "mask_dataset self lib source w = (res, w') \<Longrightarrow>
   disk w' = disk w \<and> (\<exists>evs. calls w' = calls w @ evs \<and> list_all is_dataset_map evs)"
proof (cases "new_WordMaskingCollator (collator_classes_of lib) (tokenizer_of self)
    (mask_prob (hparams self))")
  case (Inl e)
  assume "mask_dataset self lib source w = (res, w')"
  with Inl have "w' = w" by (simp add: mask_dataset_def)
  then show ?thesis using stage_world_refl [of w] by simp
next
  case (Inr wmc)
  assume "mask_dataset self lib source w = (res, w')"
  with Inr show ?thesis
    unfolding mask_dataset_def Let_def by (simp add: map_splits_world)
qed

lemma prepare_dataset_world:
  assumes "prepare_dataset self lib source w = (res, w')"
  shows "disk w' = disk w \<and> (\<exists>evs. calls w' = calls w @ evs \<and> list_all is_dataset_map evs)"
proof (cases "task (hparams self)")
  case clm
  obtain r1 w1 where tk: "tokenize_dataset self lib source False False None False w = (r1, w1)"
    by (cases "tokenize_dataset self lib source False False None False w")
  note s1 = tokenize_dataset_world [OF tk]
  show ?thesis
  proof (cases r1)
    case (Inl e)
    with assms clm tk have "w' = w1" by (simp add: prepare_dataset_def)
    with s1 show ?thesis by simp
  next
    case (Inr tokenized)
    with assms clm tk have
      "chunk_dataset self lib tokenized (max_seq_len (hparams self) + 1) [''input_ids''] [] w1 = (res, w')"
      by (simp add: prepare_dataset_def)
    from stage_world_trans [OF s1 chunk_dataset_world [OF this]] show ?thesis .
  qed
next
  case mlm
  obtain r1 w1 where tk: "tokenize_dataset self lib source False False None True w = (r1, w1)"
    by (cases "tokenize_dataset self lib source False False None True w")
  note s1 = tokenize_dataset_world [OF tk]
  show ?thesis
  proof (cases r1)
    case (Inl e)
    with assms mlm tk have "w' = w1" by (simp add: prepare_dataset_def)
    with s1 show ?thesis by simp
  next
    case (Inr tokenized)
    obtain r2 w2 where ck: "chunk_dataset self lib tokenized (max_seq_len (hparams self))
        [''input_ids'', ''word_ids''] [] w1 = (r2, w2)"
      by (cases "chunk_dataset self lib tokenized (max_seq_len (hparams self))
        [''input_ids'', ''word_ids''] [] w1")
    note s2 = stage_world_trans [OF s1 chunk_dataset_world [OF ck]]
    show ?thesis
    proof (cases r2)
      case (Inl e)
      with assms mlm tk Inr ck have "w' = w2" by (simp add: prepare_dataset_def)
      with s2 show ?thesis by simp
    next
      case chunked: (Inr chunked)
      show ?thesis
      proof (cases "static_masking (hparams self)")
        case True
        with assms mlm tk Inr ck chunked have "mask_dataset self lib chunked w2 = (res, w')"
          by (simp add: prepare_dataset_def)
        from stage_world_trans [OF s2 mask_dataset_world [OF this]] show ?thesis .
      next
        case False
        with assms mlm tk Inr ck chunked have "w' = w2" by (simp add: prepare_dataset_def)
        with s2 show ?thesis by simp
      qed
    qed
  qed
next
  case clf
  show ?thesis
  proof (cases "\<exists>train valid. map_of source ''train'' = Some train \<and>
      ''label'' \<in> set (ds_column_names lib train) \<and> map_of source ''valid'' = Some valid \<and>
      ''label'' \<in> set (ds_column_names lib valid)")
    case True
    with assms clf have "tokenize_dataset self lib source False True
        (Some (max_seq_len (hparams self))) False w = (res, w')"
      by (auto simp: prepare_dataset_def)
    from tokenize_dataset_world [OF this] show ?thesis .
  next
    case False
    with assms clf have "w' = w"
      by (auto simp: prepare_dataset_def split: option.splits if_splits)
    then show ?thesis using stage_world_refl [of w] by simp
  qed
qed

text \<open>
  Claim C9. When the cache directory of the current key exists, \<open>prepare_data\<close> returns
  with the world unchanged. When it does not exist, the source dataset is loaded and
  the pipeline is run; if either fails, the disk is as before; if both succeed, the
  disk gains exactly the prepared dictionary under the cache directory, and
  \<open>save_to_disk\<close> is the last call, after every call of the dataset engine.
\<close>

theorem prepare_data_cache:
  "(preproc_dir md5_hex fmt (hparams self) \<in> dom (disk w) \<longrightarrow>
      prepare_data md5_hex fmt load_source_dataset self lib w = (Inr (), w)) \<and>
   (preproc_dir md5_hex fmt (hparams self) \<notin> dom (disk w) \<longrightarrow>
      (\<exists>r w'. prepare_data md5_hex fmt load_source_dataset self lib w = (r, w') \<and>
         (case r of
            Inl e \<Rightarrow>
              disk w' = disk w \<and>
              (\<exists>maps. calls w' = calls w @ [LoadSourceDataset] @ maps \<and>
                 list_all is_dataset_map maps) \<and>
              (load_source_dataset = Inl e \<or>
               (\<exists>source. load_source_dataset = Inr source \<and>
                  prepare_dataset self lib source (w\<lparr>calls := calls w @ [LoadSourceDataset]\<rparr>) =
                    (Inl e, w')))
          | Inr _ \<Rightarrow>
              (\<exists>source prepared w1 maps.
                 load_source_dataset = Inr source \<and>
                 prepare_dataset self lib source (w\<lparr>calls := calls w @ [LoadSourceDataset]\<rparr>) =
                   (Inr prepared, w1) \<and>
                 disk w' = (disk w)(preproc_dir md5_hex fmt (hparams self) \<mapsto> prepared) \<and>
                 calls w' = calls w @ [LoadSourceDataset] @ maps @
                   [SaveToDisk (preproc_dir md5_hex fmt (hparams self))] \<and>
                 list_all is_dataset_map maps))))"
proof (intro conjI impI)
  assume "preproc_dir md5_hex fmt (hparams self) \<in> dom (disk w)"
  then show "prepare_data md5_hex fmt load_source_dataset self lib w = (Inr (), w)"
    by (simp add: prepare_data_def Let_def)
next
  define dir where "dir = preproc_dir md5_hex fmt (hparams self)"
  define w0 where "w0 = w\<lparr>calls := calls w @ [LoadSourceDataset]\<rparr>"
  assume "preproc_dir md5_hex fmt (hparams self) \<notin> dom (disk w)"
  then have absent: "dir \<notin> dom (disk w)" by (simp add: dir_def)
  have goal: "\<exists>r w'. prepare_data md5_hex fmt load_source_dataset self lib w = (r, w') \<and>
         (case r of
            Inl e \<Rightarrow>
              disk w' = disk w \<and>
              (\<exists>maps. calls w' = calls w @ [LoadSourceDataset] @ maps \<and>
                 list_all is_dataset_map maps) \<and>
              (load_source_dataset = Inl e \<or>
               (\<exists>source. load_source_dataset = Inr source \<and>
                  prepare_dataset self lib source w0 = (Inl e, w')))
          | Inr _ \<Rightarrow>
              (\<exists>source prepared w1 maps.
                 load_source_dataset = Inr source \<and>
                 prepare_dataset self lib source w0 = (Inr prepared, w1) \<and>
                 disk w' = (disk w)(dir \<mapsto> prepared) \<and>
                 calls w' = calls w @ [LoadSourceDataset] @ maps @ [SaveToDisk dir] \<and>
                 list_all is_dataset_map maps))"
  proof (cases load_source_dataset)
    case (Inl e)
    with absent have "prepare_data md5_hex fmt load_source_dataset self lib w = (Inl e, w0)"
      by (simp add: prepare_data_def Let_def dir_def w0_def)
    moreover have "disk w0 = disk w" "calls w0 = calls w @ [LoadSourceDataset] @ []"
      "list_all is_dataset_map []"
      by (simp_all add: w0_def)
    ultimately show ?thesis using Inl by (intro exI [of _ "Inl e"] exI [of _ w0]) auto
  next
    case (Inr source)
    obtain r1 w1 where run: "prepare_dataset self lib source w0 = (r1, w1)"
      by (cases "prepare_dataset self lib source w0")
    from prepare_dataset_world [OF run] obtain maps where
      d1: "disk w1 = disk w0" and c1: "calls w1 = calls w0 @ maps"
      and m1: "list_all is_dataset_map maps"
      by blast
    have d0: "disk w0 = disk w" and c0: "calls w0 = calls w @ [LoadSourceDataset]"
      by (simp_all add: w0_def)
    show ?thesis
    proof (cases r1)
      case (Inl e)
      with absent Inr run have "prepare_data md5_hex fmt load_source_dataset self lib w = (Inl e, w1)"
        by (simp add: prepare_data_def Let_def dir_def w0_def)
      moreover have "disk w1 = disk w" using d1 d0 by simp
      moreover have "calls w1 = calls w @ [LoadSourceDataset] @ maps" using c1 c0 by simp
      ultimately show ?thesis using Inl Inr run m1
        by (intro exI [of _ "Inl e"] exI [of _ w1]) auto
    next
      case prepared: (Inr prepared)
      define w2 where "w2 = w1\<lparr>disk := (disk w1)(dir \<mapsto> prepared),
          calls := calls w1 @ [SaveToDisk dir]\<rparr>"
      from absent Inr run prepared
      have "prepare_data md5_hex fmt load_source_dataset self lib w = (Inr (), w2)"
        by (simp add: prepare_data_def Let_def dir_def w0_def w2_def)
      moreover have "disk w2 = (disk w)(dir \<mapsto> prepared)" using d1 d0 by (simp add: w2_def)
      moreover have "calls w2 = calls w @ [LoadSourceDataset] @ maps @ [SaveToDisk dir]"
        using c1 c0 by (simp add: w2_def)
      ultimately show ?thesis using Inr run prepared m1
        by (intro exI [of _ "Inr ()"] exI [of _ w2]) auto
    qed
  qed
  then show "\<exists>r w'. prepare_data md5_hex fmt load_source_dataset self lib w = (r, w') \<and>
         (case r of
            Inl e \<Rightarrow>
              disk w' = disk w \<and>
              (\<exists>maps. calls w' = calls w @ [LoadSourceDataset] @ maps \<and>
                 list_all is_dataset_map maps) \<and>
              (load_source_dataset = Inl e \<or>
               (\<exists>source. load_source_dataset = Inr source \<and>
                  prepare_dataset self lib source (w\<lparr>calls := calls w @ [LoadSourceDataset]\<rparr>) =
                    (Inl e, w')))
          | Inr _ \<Rightarrow>
              (\<exists>source prepared w1 maps.
                 load_source_dataset = Inr source \<and>
                 prepare_dataset self lib source (w\<lparr>calls := calls w @ [LoadSourceDataset]\<rparr>) =
                   (Inr prepared, w1) \<and>
                 disk w' = (disk w)(preproc_dir md5_hex fmt (hparams self) \<mapsto> prepared) \<and>
                 calls w' = calls w @ [LoadSourceDataset] @ maps @
                   [SaveToDisk (preproc_dir md5_hex fmt (hparams self))] \<and>
                 list_all is_dataset_map maps))"
    unfolding dir_def w0_def .
qed

lemmas toy_run_defs = prepare_data_def prepare_dataset_def tokenize_dataset_def chunk_dataset_def
  tokenize_def toy_module_def toy_hparams_def toy_lib_def toy_source_def empty_world_def
  toy_map_def toy_tokenizer_def toy_encode_def toy_put_columns_def preproc_workers_of_def
  chunk_def py_range.simps py_slice_def slice_bound_def Let_def
  preproc_dir_def preproc_dir_hash_input_def path_join_def toy_digest_def str_nat.simps
  str_int_def str_bool_def task_name_def random_shift_def

text \<open>
  Claim C9 on the small CLM configuration: a first run on an empty disk writes the
  prepared dictionary as its last step, a second run changes nothing, and a run whose
  data source is not implemented writes nothing.
\<close>

theorem prepare_data_cache_witness:
  "preproc_dir toy_digest id (hparams (toy_module clm)) = ''.cache/preproc/15'' \<and>
   fst (prepare_data toy_digest id (Inr toy_source) (toy_module clm) toy_lib empty_world) = Inr () \<and>
   disk (snd (prepare_data toy_digest id (Inr toy_source) (toy_module clm) toy_lib empty_world))
       ''.cache/preproc/15'' =
     Some [(''train'', [(''input_ids'', [Seq [Some 97, Some 98, Some 99]])]),
           (''valid'', [(''input_ids'', [Seq [Some 100, Some 101]])])] \<and>
   map is_dataset_map
     (calls (snd (prepare_data toy_digest id (Inr toy_source) (toy_module clm) toy_lib empty_world))) =
     [False, True, True, True, True, False] \<and>
   last (calls (snd (prepare_data toy_digest id (Inr toy_source) (toy_module clm) toy_lib empty_world))) =
     SaveToDisk ''.cache/preproc/15'' \<and>
   prepare_data toy_digest id (Inr toy_source) (toy_module clm) toy_lib
     (snd (prepare_data toy_digest id (Inr toy_source) (toy_module clm) toy_lib empty_world)) =
     (Inr (), snd (prepare_data toy_digest id (Inr toy_source) (toy_module clm) toy_lib empty_world)) \<and>
   prepare_data toy_digest id (Inl NotImplementedError) (toy_module clm) toy_lib empty_world =
     (Inl NotImplementedError, \<lparr>disk = Map.empty, calls = [LoadSourceDataset]\<rparr>)"
proof -
  define w1 where
    "w1 = snd (prepare_data toy_digest id (Inr toy_source) (toy_module clm) toy_lib empty_world)"
  have dir: "preproc_dir toy_digest id (hparams (toy_module clm)) = ''.cache/preproc/15''"
    by (simp add: toy_run_defs)
  have ok: "fst (prepare_data toy_digest id (Inr toy_source) (toy_module clm) toy_lib empty_world) = Inr ()"
    by (simp add: toy_run_defs)
  have saved: "disk w1 ''.cache/preproc/15'' =
     Some [(''train'', [(''input_ids'', [Seq [Some 97, Some 98, Some 99]])]),
           (''valid'', [(''input_ids'', [Seq [Some 100, Some 101]])])]"
    unfolding w1_def by (simp add: toy_run_defs)
  have trace: "map is_dataset_map (calls w1) = [False, True, True, True, True, False]"
    unfolding w1_def by (simp add: toy_run_defs)
  have final: "last (calls w1) = SaveToDisk ''.cache/preproc/15''"
    unfolding w1_def by (simp add: toy_run_defs)
  have present: "preproc_dir toy_digest id (hparams (toy_module clm)) \<in> dom (disk w1)"
    using saved by (simp add: dir dom_def)
  note again = prepare_data_cache
    [where md5_hex = toy_digest and fmt = id and self = "toy_module clm" and w = w1
       and load_source_dataset = "Inr toy_source" and lib = toy_lib,
     THEN conjunct1, rule_format, OF present]
  have absent: "preproc_dir toy_digest id (hparams (toy_module clm)) \<notin> dom (disk (empty_world :: toy_ds world))"
    by (simp add: empty_world_def)
  from prepare_data_cache
    [where md5_hex = toy_digest and fmt = id and self = "toy_module clm"
       and w = "empty_world :: toy_ds world"
       and load_source_dataset = "Inl NotImplementedError" and lib = toy_lib,
     THEN conjunct2, rule_format, OF absent]
  obtain r w' where
    "prepare_data toy_digest id (Inl NotImplementedError) (toy_module clm) toy_lib empty_world = (r, w')"
    by blast
  have failed: "prepare_data toy_digest id (Inl NotImplementedError) (toy_module clm) toy_lib empty_world =
     (Inl NotImplementedError, \<lparr>disk = Map.empty, calls = [LoadSourceDataset]\<rparr>)"
    by (simp add: prepare_data_def Let_def empty_world_def)
  show ?thesis
    using dir ok saved trace final again failed unfolding w1_def by simp
qed

section \<open>Properties of the cache key\<close>

text \<open>
  The number of loader workers does not enter the hash input, hence not the cache
  directory. Under static masking for the masked-language task the hash input
  changes with the rendering of \<open>mask_prob\<close>. The directory name is the digest of the hash
  input; that two different hash inputs have different digests is a property of the
  digest function, which is not part of this development.
\<close>

lemma hash_input_ignores_num_workers:
  "preproc_dir_hash_input fmt (hp\<lparr>num_workers := n\<rparr>) = preproc_dir_hash_input fmt hp"
  by (simp add: preproc_dir_hash_input_def random_shift_def Let_def split: option.split)

lemma preproc_dir_ignores_num_workers:
  "preproc_dir md5_hex fmt (hp\<lparr>num_workers := n\<rparr>) = preproc_dir md5_hex fmt hp"
  by (simp add: preproc_dir_def hash_input_ignores_num_workers)

lemma hash_input_mask_prob:
  assumes "task hp = mlm" and "static_masking hp"
  shows "preproc_dir_hash_input fmt (hp\<lparr>mask_prob := p\<rparr>) = preproc_dir_hash_input fmt hp
           \<longleftrightarrow> fmt p = fmt (mask_prob hp)"
  using assms
  by (simp add: preproc_dir_hash_input_def random_shift_def Let_def split: option.split)

end
